theory Spec2Isabelle
  imports Main "HOL-Library.Multiset"
begin

section \<open>JavaScript values used by the addon\<close>

text \<open>
  The addon reads duck-typed JSON. A scalar field of an upstream object is a
  \<open>jsval\<close>: \<open>JUndefined\<close> when the property is missing, \<open>JNull\<close>, a boolean,
  a number or a string. Numbers are integers here (ids, season and episode
  numbers, genre ids); JSON numbers with a fractional part are outside the model, and
  so are integers of 22 digits or more, which JavaScript prints with an exponent.
\<close>

datatype jsval = JUndefined | JNull | JBool bool | JNum int | JStr string

text \<open>What \<open>if (v)\<close>, \<open>!v\<close>, \<open>v || w\<close> and \<open>filter(Boolean)\<close> test.\<close>

fun truthy :: "jsval \<Rightarrow> bool" where
  "truthy JUndefined = False"
| "truthy JNull = False"
| "truthy (JBool b) = b"
| "truthy (JNum n) = (n \<noteq> 0)"
| "truthy (JStr s) = (s \<noteq> [])"

definition js_or :: "jsval \<Rightarrow> jsval \<Rightarrow> jsval" where
  "js_or a b = (if truthy a then a else b)"

text \<open>The decimal digit \<open>d\<close>, for \<open>d\<close> below 10, and the decimal text of a number.\<close>

definition digitChar :: "nat \<Rightarrow> char" where
  "digitChar d = ''0123456789'' ! d"

function showNat :: "nat \<Rightarrow> string" where
  "showNat n = (if n < 10 then [digitChar n] else showNat (n div 10) @ [digitChar (n mod 10)])"
  by pat_completeness auto
termination
  by (relation "measure id") auto

definition showInt :: "int \<Rightarrow> string" where
  "showInt i = (if i < 0 then CHR ''-'' # showNat (nat (- i)) else showNat (nat i))"

text \<open>
  String conversion as a template literal \<open>`${v}`\<close> performs it (for a number below
  \<open>1e21\<close> in magnitude: all its digits).
\<close>

fun toStr :: "jsval \<Rightarrow> string" where
  "toStr JUndefined = ''undefined''"
| "toStr JNull = ''null''"
| "toStr (JBool b) = (if b then ''true'' else ''false'')"
| "toStr (JNum n) = showInt n"
| "toStr (JStr s) = s"

text \<open>
  Errors a JavaScript call can throw here: an axios error, which carries the
  status of the response when the server answered (\<open>err.response.status\<close>) and
  none when it did not (timeout, connection failure), and a \<open>TypeError\<close>
  (a property read on \<open>undefined\<close> or \<open>null\<close>, a call of something that is not a
  function), which has no \<open>response\<close>.
\<close>

datatype js_error = AxiosError "nat option" | TypeError

text \<open>The method call \<open>v.toString()\<close>: it throws on \<open>undefined\<close> and \<open>null\<close>.\<close>

definition toStringCall :: "jsval \<Rightarrow> js_error + string" where
  "toStringCall v = (if v = JUndefined \<or> v = JNull then Inl TypeError else Inr (toStr v))"

text \<open>\<open>s.padStart(2, '0')\<close>: pads on the left up to length 2, never truncates.\<close>

definition padStart2 :: "string \<Rightarrow> string" where
  "padStart2 s = replicate (2 - length s) (CHR ''0'') @ s"

section \<open>Genre table (server.js, mapGenreIds)\<close>

definition genreMap :: "(int \<times> string) list" where
  "genreMap =
    [(28, ''Action''), (35, ''Comedy''), (18, ''Drama''), (27, ''Horror''),
     (878, ''Science Fiction''), (53, ''Thriller''), (12, ''Adventure''),
     (16, ''Animation''), (80, ''Crime''), (99, ''Documentary''),
     (10751, ''Family''), (14, ''Fantasy''), (36, ''History''),
     (10402, ''Music''), (9648, ''Mystery''), (10749, ''Romance''),
     (10770, ''TV Movie''), (37, ''Western''), (10752, ''War''),
     (10759, ''Action & Adventure''), (10762, ''Kids''),
     (10763, ''News''), (10764, ''Reality''), (10765, ''Sci-Fi & Fantasy''),
     (10766, ''Soap''), (10767, ''Talk''), (10768, ''War & Politics'')]"

text \<open>\<open>genreMap[id]\<close>: the label, or \<open>undefined\<close> when the table has no such key.\<close>

definition genreAt :: "int \<Rightarrow> jsval" where
  "genreAt i = (case map_of genreMap i of Some l \<Rightarrow> JStr l | None \<Rightarrow> JUndefined)"

text \<open>\<open>genreIds.map(id => genreMap[id]).filter(Boolean)\<close>\<close>

definition mapGenreIds :: "int list \<Rightarrow> jsval list" where
  "mapGenreIds genreIds = filter truthy (map genreAt genreIds)"


section \<open>Upstream replies and axios\<close>

text \<open>
  What the network does with one GET: the server answers with a status and a body,
  or no answer arrives (timeout, connection failure).
\<close>

datatype 'a reply = Reply nat 'a | NoReply

datatype 'a response = Response (status: nat) (data: 'a)

text \<open>
  \<open>axios.get\<close> resolves with the response when \<open>validateStatus\<close> accepts its status
  and rejects with an error carrying the response otherwise; with no answer it rejects
  with an error that has no response. The default \<open>validateStatus\<close> accepts 2xx.
\<close>

definition axios_get :: "(nat \<Rightarrow> bool) \<Rightarrow> 'a reply \<Rightarrow> js_error + 'a response" where
  "axios_get validateStatus r =
    (case r of
       NoReply \<Rightarrow> Inl (AxiosError None)
     | Reply st d \<Rightarrow>
         if validateStatus st then Inr (Response st d) else Inl (AxiosError (Some st)))"

definition defaultValidateStatus :: "nat \<Rightarrow> bool" where
  "defaultValidateStatus st = (200 \<le> st \<and> st < 300)"

text \<open>The homepage body: text, or anything else (on which \<open>.match\<close> is not a function).\<close>

datatype body = TextBody string | OtherBody

section \<open>Build identifier cache\<close>

text \<open>
  The files of the repository are told apart by a suffix:
  \<open>_server\<close> is src/server.js;
  no suffix is src/unnamed/part_000 and part_001, whose \<open>getBuildId\<close> are the same;
  \<open>_prod\<close> is the first file of src/unnamed/part_002 (lines 1 to 529, the one with rate limiting);
  \<open>_retry\<close> is the second file of src/unnamed/part_002 (lines 530 to 912, the one with
  \<open>_withBuildIdRetry\<close>).
\<close>

definition dquote :: char where
  "dquote = CHR 0x22"

text \<open>The literal prefix of both patterns: a double quote, buildId, double quote, colon, double quote.\<close>

definition buildIdKey :: string where
  "buildIdKey = dquote # ''buildId'' @ [dquote, CHR '':'', dquote]"

text \<open>
  \<open>([^"]+)"\<close> (server.js, part_002): the longest run of characters other than
  the double quote, not empty, followed by a double quote.
\<close>

definition groupNonQuote :: "string \<Rightarrow> string option" where
  "groupNonQuote rest =
    (let g = takeWhile (\<lambda>ch. ch \<noteq> dquote) rest in
     case dropWhile (\<lambda>ch. ch \<noteq> dquote) rest of
       [] \<Rightarrow> None
     | _ # _ \<Rightarrow> if g \<noteq> [] then Some g else None)"

text \<open>
  \<open>(.*?)"\<close> (part_000, part_001): the shortest run of characters up to the next
  double quote, possibly empty; the dot matches no line terminator. (Of the four
  line terminators only line feed and carriage return are 8-bit characters.)
\<close>

definition lineTerminator :: "char \<Rightarrow> bool" where
  "lineTerminator ch = (ch = CHR 0x0A \<or> ch = CHR 0x0D)"

definition groupLazy :: "string \<Rightarrow> string option" where
  "groupLazy rest =
    (let dot = (\<lambda>ch. ch \<noteq> dquote \<and> \<not> lineTerminator ch) in
     case dropWhile dot rest of
       [] \<Rightarrow> None
     | ch # _ \<Rightarrow> if ch = dquote then Some (takeWhile dot rest) else None)"

text \<open>The pattern tried at the start of \<open>s\<close>, and \<open>s.match(pattern)[1]\<close>: the leftmost match.\<close>

definition matchAt :: "(string \<Rightarrow> string option) \<Rightarrow> string \<Rightarrow> string option" where
  "matchAt grp s =
    (if take (length buildIdKey) s = buildIdKey then grp (drop (length buildIdKey) s) else None)"

fun regexMatch :: "(string \<Rightarrow> string option) \<Rightarrow> string \<Rightarrow> string option" where
  "regexMatch grp [] = None"
| "regexMatch grp (ch # s) =
    (case matchAt grp (ch # s) of Some g \<Rightarrow> Some g | None \<Rightarrow> regexMatch grp s)"

text \<open>
  The body of the \<open>try\<close> block of \<open>getBuildId\<close>: fetch the homepage, match the
  pattern. \<open>Inr None\<close> is a fetched page without a match.
\<close>

definition tryFetchBuildId :: "(string \<Rightarrow> string option) \<Rightarrow> body reply \<Rightarrow> js_error + string option" where
  "tryFetchBuildId grp home =
    (case axios_get defaultValidateStatus home of
       Inl e \<Rightarrow> Inl e
     | Inr resp \<Rightarrow>
         (case data resp of
            TextBody s \<Rightarrow> Inr (regexMatch grp s)
          | OtherBody \<Rightarrow> Inl TypeError))"

text \<open>The client of part_000, part_001 and of the second file of part_002; \<open>None\<close> is \<open>null\<close>.\<close>

record client =
  buildId :: "string option"
  buildIdFetchedAt :: int

definition newClient :: client where
  "newClient = \<lparr>buildId = None, buildIdFetchedAt = 0\<rparr>"

text \<open>The truth value of \<open>this.buildId\<close>: \<open>null\<close> and the empty string are falsy.\<close>

definition truthyId :: "string option \<Rightarrow> bool" where
  "truthyId b = (case b of None \<Rightarrow> False | Some s \<Rightarrow> s \<noteq> [])"

text \<open>What a call does that a caller can observe from outside.\<close>

datatype event = GetBuildIdCall bool | HomepageRequest | OperationCall

text \<open>
  \<open>getBuildId(forceRefresh)\<close>, given the reading of \<open>Date.now()\<close> and what the network
  answers if the homepage is asked for. The result is the returned identifier, the
  client afterwards and the requests made; \<open>Inl\<close> would be an exception leaving the call.
\<close>

definition getBuildIdWith ::
  "(string \<Rightarrow> string option) \<Rightarrow> bool \<Rightarrow> int \<Rightarrow> body reply \<Rightarrow> client
     \<Rightarrow> js_error + (string option \<times> client \<times> event list)" where
  "getBuildIdWith grp forceRefresh now home c =
    (if \<not> forceRefresh \<and> truthyId (buildId c) \<and> now - buildIdFetchedAt c < 3600 * 1000
     then Inr (buildId c, c, [])
     else
       (case tryFetchBuildId grp home of
          Inr (Some b) \<Rightarrow>
            (let c' = c\<lparr>buildId := Some b, buildIdFetchedAt := now\<rparr>
             in Inr (buildId c', c', [HomepageRequest]))
        | Inr None \<Rightarrow> Inr (buildId c, c, [HomepageRequest])
        | Inl err \<Rightarrow> Inr (buildId c, c, [HomepageRequest])))"

definition getBuildId ::
  "bool \<Rightarrow> int \<Rightarrow> body reply \<Rightarrow> client \<Rightarrow> js_error + (string option \<times> client \<times> event list)" where
  "getBuildId = getBuildIdWith groupLazy"

definition getBuildId_retry ::
  "bool \<Rightarrow> int \<Rightarrow> body reply \<Rightarrow> client \<Rightarrow> js_error + (string option \<times> client \<times> event list)" where
  "getBuildId_retry = getBuildIdWith groupNonQuote"

text \<open>
  server.js: the client starts with a fallback identifier and keeps no timestamp;
  \<open>getBuildId()\<close> takes no argument and returns nothing (\<open>None\<close> is \<open>undefined\<close>).
\<close>

record client_server =
  buildId_server :: string

definition newClient_server :: client_server where
  "newClient_server = \<lparr>buildId_server = ''7xu4PEyycasyUF-xW91f5''\<rparr>"

definition getBuildId_server ::
  "body reply \<Rightarrow> client_server \<Rightarrow> js_error + (string option \<times> client_server \<times> event list)" where
  "getBuildId_server home c =
    (case tryFetchBuildId groupNonQuote home of
       Inr (Some b) \<Rightarrow> Inr (None, c\<lparr>buildId_server := b\<rparr>, [HomepageRequest])
     | Inr None \<Rightarrow> Inr (None, c, [HomepageRequest])
     | Inl err \<Rightarrow> Inr (None, c, [HomepageRequest]))"

section \<open>Retry on a stale identifier (part_002, second file)\<close>

text \<open>\<open>err.response && (err.response.status === 404 || err.response.status === 500)\<close>\<close>

definition staleStatus :: "js_error \<Rightarrow> bool" where
  "staleStatus err =
    (case err of
       AxiosError (Some st) \<Rightarrow> st = 404 \<or> st = 500
     | AxiosError None \<Rightarrow> False
     | TypeError \<Rightarrow> False)"

text \<open>
  \<open>_withBuildIdRetry(fn)\<close>. The operation \<open>fn\<close> is a closure over the client: what it
  does depends on the client at the time of the call and on the network, which may
  answer the first call (number 0) and the retry (number 1) differently. It returns a
  value (\<open>None\<close> is \<open>null\<close>) or throws. \<open>io1\<close> and \<open>io2\<close> are the clock reading and the
  homepage's answer for the first and the second call of \<open>getBuildId\<close>.
\<close>

definition withBuildIdRetry ::
  "(client \<Rightarrow> nat \<Rightarrow> js_error + 'a option) \<Rightarrow> int \<times> body reply \<Rightarrow> int \<times> body reply \<Rightarrow> client
     \<Rightarrow> js_error + ('a option \<times> client \<times> event list)" where
  "withBuildIdRetry fn io1 io2 c =
    (case getBuildId_retry False (fst io1) (snd io1) c of
       Inl e \<Rightarrow> Inl e
     | Inr (_, c1, tr1) \<Rightarrow>
         (case fn c1 0 of
            Inr v \<Rightarrow> Inr (v, c1, GetBuildIdCall False # tr1 @ [OperationCall])
          | Inl err \<Rightarrow>
              if staleStatus err then
                (case getBuildId_retry True (fst io2) (snd io2) c1 of
                   Inl e \<Rightarrow> Inl e
                 | Inr (_, c2, tr2) \<Rightarrow>
                     (case fn c2 1 of
                        Inr v \<Rightarrow>
                          Inr (v, c2, GetBuildIdCall False # tr1 @ [OperationCall]
                                 @ GetBuildIdCall True # tr2 @ [OperationCall])
                      | Inl err2 \<Rightarrow>
                          Inr (None, c2, GetBuildIdCall False # tr1 @ [OperationCall]
                                 @ GetBuildIdCall True # tr2 @ [OperationCall])))
              else Inr (None, c1, GetBuildIdCall False # tr1 @ [OperationCall])))"



text \<open>
  A refresh fails when the homepage cannot be fetched (no answer, a status outside
  2xx, a body that is not text) or the page has no match for the pattern.
\<close>

definition refreshFails :: "(string \<Rightarrow> string option) \<Rightarrow> body reply \<Rightarrow> bool" where
  "refreshFails grp home =
    (case tryFetchBuildId grp home of Inr (Some b) \<Rightarrow> False | Inr None \<Rightarrow> True | Inl e \<Rightarrow> True)"

section \<open>Request executor (part_002, first file)\<close>

text \<open>\<open>validateStatus: (status) => status < 500\<close> of \<open>axiosConfig\<close>.\<close>

definition validateStatus_prod :: "nat \<Rightarrow> bool" where
  "validateStatus_prod st = (st < 500)"

text \<open>
  \<open>makeRequest(url, params)\<close>, given what the network answers to that GET. It returns
  \<open>response.data\<close> or \<open>null\<close> (\<open>None\<close>); \<open>Inl\<close> would be an exception leaving the call.
\<close>

definition makeRequest :: "'a reply \<Rightarrow> js_error + 'a option" where
  "makeRequest r =
    (case axios_get validateStatus_prod r of
       Inr response \<Rightarrow>
         if status response = 200 then Inr (Some (data response)) else Inr None
     | Inl error \<Rightarrow> Inr None)"

section \<open>Upstream items and their projection\<close>

text \<open>
  An upstream catalog item, with the fields the projections read. \<open>genre_ids\<close> is
  \<open>None\<close> when the property is missing and a list of integers otherwise.
\<close>

record item =
  item_id :: jsval
  mediaType :: jsval
  title :: jsval
  name :: jsval
  poster :: jsval
  poster_path :: jsval
  image :: jsval
  backdrop_path :: jsval
  description :: jsval
  overview :: jsval
  release_date :: jsval
  first_air_date :: jsval
  rating :: jsval
  genre_ids :: "int list option"
  original_language :: jsval

text \<open>The object \<open>{}\<close>: every property is missing.\<close>

definition emptyItem :: item where
  "emptyItem =
    \<lparr>item_id = JUndefined, mediaType = JUndefined, title = JUndefined, name = JUndefined,
     poster = JUndefined, poster_path = JUndefined, image = JUndefined,
     backdrop_path = JUndefined, description = JUndefined, overview = JUndefined,
     release_date = JUndefined, first_air_date = JUndefined, rating = JUndefined,
     genre_ids = None, original_language = JUndefined\<rparr>"

text \<open>\<open>{...item, mediaType: mt}\<close>; spreading \<open>null\<close> adds no property.\<close>

definition spreadMediaType :: "item option \<Rightarrow> string \<Rightarrow> item" where
  "spreadMediaType io mt =
    (case io of None \<Rightarrow> emptyItem | Some i \<Rightarrow> i)\<lparr>mediaType := JStr mt\<rparr>"

record meta =
  m_id :: string
  m_type :: string
  m_name :: jsval
  m_poster :: jsval
  m_background :: jsval
  m_description :: jsval
  m_releaseInfo :: jsval
  m_imdbRating :: jsval
  m_genres :: "jsval list"
  m_language :: jsval

text \<open>\<open>x.rating ? x.rating.toString() : null\<close>; a truthy value has a \<open>toString\<close>.\<close>

definition imdbRatingOf :: "jsval \<Rightarrow> jsval" where
  "imdbRatingOf r = (if truthy r then JStr (toStr r) else JNull)"

text \<open>\<open>x.genre_ids || []\<close>; an array is truthy, even an empty one.\<close>

definition genreIdsOf :: "int list option \<Rightarrow> int list" where
  "genreIdsOf g = (case g of None \<Rightarrow> [] | Some ids \<Rightarrow> ids)"

text \<open>\<open>transformToStremioMeta(item)\<close> of server.js (and of the second file of part_002).\<close>

definition transformToStremioMeta_server :: "item \<Rightarrow> meta" where
  "transformToStremioMeta_server i =
    (let isMovie = (mediaType i = JStr ''movie'') in
     \<lparr>m_id = ''cineby:'' @ toStr (item_id i),
      m_type = (if isMovie then ''movie'' else ''series''),
      m_name = title i,
      m_poster = poster i,
      m_background = image i,
      m_description = description i,
      m_releaseInfo = release_date i,
      m_imdbRating = imdbRatingOf (rating i),
      m_genres = mapGenreIds (genreIdsOf (genre_ids i)),
      m_language = original_language i\<rparr>)"

text \<open>
  \<open>transformToStremioMeta(item)\<close> of the first file of part_002: \<open>null\<close> for \<open>null\<close> and
  for an item without a truthy id.
\<close>

definition transformToStremioMeta_prod :: "item option \<Rightarrow> meta option" where
  "transformToStremioMeta_prod io =
    (case io of
       None \<Rightarrow> None
     | Some i \<Rightarrow>
         if \<not> truthy (item_id i) then None
         else
           (let isMovie = (mediaType i = JStr ''movie'') in
            Some
             \<lparr>m_id = ''cineby:'' @ toStr (item_id i),
              m_type = (if isMovie then ''movie'' else ''series''),
              m_name = js_or (js_or (title i) (name i)) (JStr ''Unknown Title''),
              m_poster = js_or (poster i) (poster_path i),
              m_background = js_or (image i) (backdrop_path i),
              m_description = js_or (js_or (description i) (overview i)) (JStr ''''),
              m_releaseInfo = js_or (js_or (release_date i) (first_air_date i)) (JStr ''''),
              m_imdbRating = imdbRatingOf (rating i),
              m_genres = mapGenreIds (genreIdsOf (genre_ids i)),
              m_language = js_or (original_language i) (JStr ''en'')\<rparr>))"

section \<open>Responses of the route handlers\<close>

text \<open>
  A video entry of a series meta. \<open>released\<close> is a \<open>Date\<close> built from a value
  (\<open>DateOf\<close>, the date itself is not interpreted) or a value passed through as it is.
\<close>

datatype released = DateOf jsval | Raw jsval

record video =
  v_id :: string
  v_title :: string
  v_season :: jsval
  v_episode :: jsval
  v_overview :: jsval
  v_thumbnail :: jsval
  v_released :: released

record detail_meta = meta +
  m_runtime :: jsval
  m_videos :: "video list option"

record stream =
  s_url :: jsval
  s_title :: string
  notWebReady :: bool

text \<open>
  What a handler sends: \<open>res.status(n).json(body)\<close>, with status 200 when \<open>res.json\<close>
  is called alone. \<open>EmptyMeta\<close> is the body \<open>{ meta: {} }\<close>.
\<close>

datatype payload =
    Metas "meta list"
  | MetaObject detail_meta
  | EmptyMeta
  | Streams "stream list"
  | ErrorMessage string

record http_response =
  res_status :: nat
  res_body :: payload

definition json :: "payload \<Rightarrow> http_response" where
  "json b = \<lparr>res_status = 200, res_body = b\<rparr>"

definition status_json :: "nat \<Rightarrow> payload \<Rightarrow> http_response" where
  "status_json n b = \<lparr>res_status = n, res_body = b\<rparr>"

section \<open>Catalog route\<close>

text \<open>
  \<open>xs.slice(start, end)\<close> for integer arguments: a negative index counts from the end,
  and both are clamped to the array.
\<close>

definition jsSlice :: "int \<Rightarrow> int \<Rightarrow> 'a list \<Rightarrow> 'a list" where
  "jsSlice start end' xs =
    (let len = int (length xs);
         k = (if start < 0 then max (len + start) 0 else min start len);
         final = (if end' < 0 then max (len + end') 0 else min end' len)
     in take (nat (final - k)) (drop (nat k) xs))"

text \<open>
  The \<open>extra\<close> path segment as \<open>URLSearchParams\<close> reads it: \<open>params.get\<close> gives a
  string or \<open>null\<close>, and \<open>x_skip\<close> is what \<open>parseInt(params.get('skip'))\<close> returns,
  \<open>None\<close> for \<open>NaN\<close> (an infinite result, from a text of more than 308 digits, is
  outside the model).
\<close>

record extra_params =
  x_search :: "string option"
  x_skip :: "int option"
  x_genre :: "string option"

text \<open>\<open>parseInt(...) || 0\<close>: \<open>NaN\<close> and 0 are falsy.\<close>

definition skipOrZero :: "int option \<Rightarrow> int" where
  "skipOrZero p = (case p of None \<Rightarrow> 0 | Some n \<Rightarrow> if n \<noteq> 0 then n else 0)"

text \<open>
  \<open>search\<close> after the parsing of \<open>extra\<close>: \<open>undefined\<close> without the segment,
  \<open>params.get('search')\<close> with it.
\<close>

definition searchOf :: "extra_params option \<Rightarrow> string option" where
  "searchOf extra = (case extra of None \<Rightarrow> None | Some x \<Rightarrow> x_search x)"

text \<open>The media kind a route type asks for: \<open>type === 'series' ? 'tv' : 'movie'\<close>.\<close>

definition wantedKind :: "string \<Rightarrow> string" where
  "wantedKind ty = (if ty = ''series'' then ''tv'' else ''movie'')"

text \<open>
  server.js. Each method of the client catches its own errors and gives \<open>[]\<close>; the
  payload of a reply is the list the method looks for in the body
  (\<open>response.data?.pageProps?.trending\<close> and the like), \<open>None\<close> when it is missing. A
  list element is \<open>None\<close> when it is \<open>null\<close>.
\<close>

definition listOrEmpty_server :: "'a list option reply \<Rightarrow> 'a list" where
  "listOrEmpty_server r =
    (case axios_get defaultValidateStatus r of
       Inr response \<Rightarrow> (case data response of Some xs \<Rightarrow> xs | None \<Rightarrow> [])
     | Inl error \<Rightarrow> [])"

text \<open>
  \<open>items.filter(item => item.mediaType === kind)\<close>: reading \<open>mediaType\<close> of \<open>null\<close>
  throws.
\<close>

definition filterKind_server :: "string \<Rightarrow> item option list \<Rightarrow> js_error + item list" where
  "filterKind_server kind items =
    (if None \<in> set items then Inl TypeError
     else Inr (filter (\<lambda>i. mediaType i = JStr kind) (map the items)))"

text \<open>
  The body of the \<open>try\<close> block of \<open>app.get('/catalog/:type/:id/:extra?')\<close> in server.js,
  given the reply to the one data request the client makes. \<open>client.getAnime\<close> does
  not exist, so calling it throws.
\<close>

definition catalogTry_server ::
  "string \<Rightarrow> string \<Rightarrow> extra_params option \<Rightarrow> item option list option reply
     \<Rightarrow> js_error + http_response" where
  "catalogTry_server ty ident extra net =
    (let search = searchOf extra;
         skip = (case extra of None \<Rightarrow> 0 | Some x \<Rightarrow> skipOrZero (x_skip x))
     in
       if truthyId search then
         (case filterKind_server (wantedKind ty) (listOrEmpty_server net) of
            Inl e \<Rightarrow> Inl e
          | Inr found \<Rightarrow> Inr (json (Metas (map transformToStremioMeta_server found))))
       else if ident = ''cineby-trending-movies'' \<or> ident = ''cineby-trending-series'' then
         (case filterKind_server (wantedKind ty) (listOrEmpty_server net) of
            Inl e \<Rightarrow> Inl e
          | Inr found \<Rightarrow>
              Inr (json (Metas (map transformToStremioMeta_server
                                  (jsSlice skip (skip + 20) found)))))
       else if ident = ''cineby-movies'' then
         Inr (json (Metas (map (\<lambda>i. transformToStremioMeta_server (spreadMediaType i ''movie''))
                             (listOrEmpty_server net))))
       else if ident = ''cineby-series'' then
         Inr (json (Metas (map (\<lambda>i. transformToStremioMeta_server (spreadMediaType i ''tv''))
                             (listOrEmpty_server net))))
       else if ident = ''cineby-anime'' then Inl TypeError
       else Inr (json (Metas [])))"

definition catalog_server ::
  "string \<Rightarrow> string \<Rightarrow> extra_params option \<Rightarrow> item option list option reply \<Rightarrow> http_response" where
  "catalog_server ty ident extra net =
    (case catalogTry_server ty ident extra net of
       Inr res \<Rightarrow> res
     | Inl error \<Rightarrow> status_json 500 (ErrorMessage ''Failed to fetch catalog''))"

text \<open>
  The first file of part_002. \<open>makeRequest\<close> gives the body or \<open>null\<close>, and each method
  of the client gives the list it finds there or \<open>[]\<close>.
\<close>

definition listOrEmpty_prod :: "'a list option reply \<Rightarrow> js_error + 'a list" where
  "listOrEmpty_prod r =
    (case makeRequest r of
       Inl e \<Rightarrow> Inl e
     | Inr None \<Rightarrow> Inr []
     | Inr (Some found) \<Rightarrow> Inr (case found of Some xs \<Rightarrow> xs | None \<Rightarrow> []))"

text \<open>
  White space that \<open>query.trim()\<close> removes, as far as it lies below code 256: space,
  tab, line feed, vertical tab, form feed, carriage return and the no-break space.
\<close>

definition isWhiteSpace :: "char \<Rightarrow> bool" where
  "isWhiteSpace ch =
    (ch \<in> set [CHR 0x20, CHR 0x09, CHR 0x0A, CHR 0x0B, CHR 0x0C, CHR 0x0D, CHR 0xA0])"

text \<open>\<open>client.search\<close>: \<open>[]\<close> without a request when the trimmed query is empty.\<close>

definition search_prod :: "string \<Rightarrow> item option list option reply \<Rightarrow> js_error + item option list" where
  "search_prod query net =
    (if query = [] \<or> list_all isWhiteSpace query then Inr [] else listOrEmpty_prod net)"

text \<open>\<open>items.filter(item => item && item.mediaType === kind)\<close>\<close>

definition filterKind_prod :: "string \<Rightarrow> item option list \<Rightarrow> item option list" where
  "filterKind_prod kind items =
    filter (\<lambda>io. case io of None \<Rightarrow> False | Some i \<Rightarrow> mediaType i = JStr kind) items"

text \<open>\<open>.map(item => client.transformToStremioMeta(item)).filter(Boolean)\<close>\<close>

definition projectAll_prod :: "item option list \<Rightarrow> meta list" where
  "projectAll_prod items =
    map the (filter (\<lambda>m. m \<noteq> None) (map transformToStremioMeta_prod items))"

definition catalogTry_prod ::
  "string \<Rightarrow> string \<Rightarrow> extra_params option \<Rightarrow> item option list option reply
     \<Rightarrow> js_error + http_response" where
  "catalogTry_prod ty ident extra net =
    (if ty \<noteq> ''movie'' \<and> ty \<noteq> ''series'' then Inr (status_json 400 (ErrorMessage ''Invalid type''))
     else
       (let search = searchOf extra;
            skip = (case extra of None \<Rightarrow> 0 | Some x \<Rightarrow> max 0 (skipOrZero (x_skip x)))
        in
          if truthyId search then
            (case search_prod (the search) net of
               Inl e \<Rightarrow> Inl e
             | Inr found \<Rightarrow>
                 Inr (json (Metas (projectAll_prod (filterKind_prod (wantedKind ty) found)))))
          else if ident = ''cineby-trending-movies'' \<or> ident = ''cineby-trending-series'' then
            (case listOrEmpty_prod net of
               Inl e \<Rightarrow> Inl e
             | Inr trending \<Rightarrow>
                 Inr (json (Metas (projectAll_prod
                        (jsSlice skip (skip + 20) (filterKind_prod (wantedKind ty) trending))))))
          else if ident = ''cineby-movies'' then
            (if ty = ''movie'' then
               (case listOrEmpty_prod net of
                  Inl e \<Rightarrow> Inl e
                | Inr movies \<Rightarrow>
                    Inr (json (Metas (projectAll_prod
                           (map (\<lambda>i. Some (spreadMediaType i ''movie'')) movies)))))
             else Inr (json (Metas [])))
          else if ident = ''cineby-series'' then
            (if ty = ''series'' then
               (case listOrEmpty_prod net of
                  Inl e \<Rightarrow> Inl e
                | Inr tvShows \<Rightarrow>
                    Inr (json (Metas (projectAll_prod
                           (map (\<lambda>i. Some (spreadMediaType i ''tv'')) tvShows)))))
             else Inr (json (Metas [])))
          else Inr (status_json 404 (ErrorMessage ''Catalog not found''))))"

definition catalog_prod ::
  "string \<Rightarrow> string \<Rightarrow> extra_params option \<Rightarrow> item option list option reply \<Rightarrow> http_response" where
  "catalog_prod ty ident extra net =
    (case catalogTry_prod ty ident extra net of
       Inr res \<Rightarrow> res
     | Inl error \<Rightarrow> status_json 500 (ErrorMessage ''Internal server error''))"

section \<open>Meta route\<close>

text \<open>
  The detail payload (\<open>pageProps\<close> of a detail page): the fields of an item, a
  runtime, and for a series its seasons with their episodes. Seasons and episodes are
  objects (not \<open>null\<close>); \<open>seasons\<close> and \<open>episodes\<close> are \<open>None\<close> when missing and
  arrays otherwise. \<open>episode_name\<close> and \<open>episode_overview\<close> are the properties \<open>name\<close>
  and \<open>overview\<close> of an episode.
\<close>

record episode =
  episode_number :: jsval
  episode_name :: jsval
  episode_overview :: jsval
  still_path :: jsval
  air_date :: jsval

record season =
  season_number :: jsval
  episodes :: "episode list option"

record details = item +
  runtime :: jsval
  seasons :: "season list option"

text \<open>
  The two template literals of a video entry. \<open>x.toString()\<close> throws when the number
  is missing; the id is built first and cannot throw.
\<close>

definition videoId :: "string \<Rightarrow> season \<Rightarrow> episode \<Rightarrow> string" where
  "videoId ident s e =
    ident @ '':'' @ toStr (season_number s) @ '':'' @ toStr (episode_number e)"

definition videoTitle :: "season \<Rightarrow> episode \<Rightarrow> js_error + string" where
  "videoTitle s e =
    (case toStringCall (season_number s) of
       Inl err \<Rightarrow> Inl err
     | Inr sn \<Rightarrow>
         (case toStringCall (episode_number e) of
            Inl err \<Rightarrow> Inl err
          | Inr en \<Rightarrow>
              Inr (''S'' @ padStart2 sn @ ''E'' @ padStart2 en @ '' - '' @ toStr (episode_name e))))"

text \<open>
  The object pushed for one episode; \<open>Inr None\<close> when the episode is passed over.
  server.js and the second file of part_002 push one for every episode.
\<close>

definition videoEntry_server :: "string \<Rightarrow> season \<Rightarrow> episode \<Rightarrow> js_error + video option" where
  "videoEntry_server ident s e =
    (case videoTitle s e of
       Inl err \<Rightarrow> Inl err
     | Inr t \<Rightarrow>
         Inr (Some \<lparr>v_id = videoId ident s e, v_title = t,
                    v_season = season_number s, v_episode = episode_number e,
                    v_overview = episode_overview e, v_thumbnail = still_path e,
                    v_released = DateOf (air_date e)\<rparr>))"

definition videoEntry_retry :: "string \<Rightarrow> season \<Rightarrow> episode \<Rightarrow> js_error + video option" where
  "videoEntry_retry ident s e =
    (case videoTitle s e of
       Inl err \<Rightarrow> Inl err
     | Inr t \<Rightarrow>
         Inr (Some \<lparr>v_id = videoId ident s e, v_title = t,
                    v_season = season_number s, v_episode = episode_number e,
                    v_overview = episode_overview e, v_thumbnail = still_path e,
                    v_released = Raw (air_date e)\<rparr>))"


text \<open>
  The two nested \<open>for\<close> loops; the accumulator is \<open>meta.videos\<close>, and an exception
  leaves the loops at once.
\<close>

fun pushEpisodes ::
  "(season \<Rightarrow> episode \<Rightarrow> js_error + video option) \<Rightarrow> season \<Rightarrow> episode list \<Rightarrow> video list
     \<Rightarrow> js_error + video list" where
  "pushEpisodes entry s [] videos = Inr videos"
| "pushEpisodes entry s (e # es) videos =
    (case entry s e of
       Inl err \<Rightarrow> Inl err
     | Inr None \<Rightarrow> pushEpisodes entry s es videos
     | Inr (Some v) \<Rightarrow> pushEpisodes entry s es (videos @ [v]))"

fun pushSeasons ::
  "(season \<Rightarrow> episode \<Rightarrow> js_error + video option) \<Rightarrow> season list \<Rightarrow> video list
     \<Rightarrow> js_error + video list" where
  "pushSeasons entry [] videos = Inr videos"
| "pushSeasons entry (s # ss) videos =
    (case episodes s of
       None \<Rightarrow> pushSeasons entry ss videos
     | Some es \<Rightarrow>
         (case pushEpisodes entry s es videos of
            Inl err \<Rightarrow> Inl err
          | Inr videos' \<Rightarrow> pushSeasons entry ss videos'))"

text \<open>\<open>if (type === 'series' && details.seasons) { meta.videos = []; ... }\<close>\<close>

definition addVideos ::
  "(season \<Rightarrow> episode \<Rightarrow> js_error + video option) \<Rightarrow> string \<Rightarrow> 'a details_scheme \<Rightarrow> detail_meta
     \<Rightarrow> js_error + detail_meta" where
  "addVideos entry ty d m =
    (case seasons d of
       None \<Rightarrow> Inr m
     | Some ss \<Rightarrow>
         if ty = ''series'' then
           (case pushSeasons entry ss [] of
              Inl err \<Rightarrow> Inl err
            | Inr videos \<Rightarrow> Inr (m\<lparr>m_videos := Some videos\<rparr>))
         else Inr m)"

text \<open>The object \<open>meta\<close> before the videos, in server.js and the second file of part_002.\<close>

definition metaOf_server :: "string \<Rightarrow> string \<Rightarrow> 'a details_scheme \<Rightarrow> detail_meta" where
  "metaOf_server ty ident d =
    \<lparr>m_id = ident,
     m_type = ty,
     m_name = js_or (title d) (name d),
     m_poster = poster d,
     m_background = image d,
     m_description = description d,
     m_releaseInfo = js_or (release_date d) (first_air_date d),
     m_imdbRating = imdbRatingOf (rating d),
     m_genres = mapGenreIds (genreIdsOf (genre_ids d)),
     m_language = original_language d,
     m_runtime = runtime d,
     m_videos = None\<rparr>"


text \<open>
  server.js, \<open>getContentDetails\<close>: \<open>pageProps\<close> when the request succeeds and the body
  has one, \<open>null\<close> otherwise; it catches its own errors. The payload of the reply is
  \<open>response.data?.pageProps\<close>, \<open>None\<close> when it is missing.
\<close>

definition getContentDetails_server :: "details option reply \<Rightarrow> details option" where
  "getContentDetails_server net =
    (case axios_get defaultValidateStatus net of
       Inr response \<Rightarrow> data response
     | Inl error \<Rightarrow> None)"

text \<open>\<open>app.get('/meta/:type/:id')\<close> of server.js: the \<open>try\<close> block, then the handler.\<close>

definition metaTry_server :: "string \<Rightarrow> string \<Rightarrow> details option reply \<Rightarrow> js_error + http_response" where
  "metaTry_server ty ident net =
    (case getContentDetails_server net of
       None \<Rightarrow> Inr (status_json 404 (ErrorMessage ''Content not found''))
     | Some d \<Rightarrow>
         (case addVideos (videoEntry_server ident) ty d (metaOf_server ty ident d) of
            Inl err \<Rightarrow> Inl err
          | Inr m \<Rightarrow> Inr (json (MetaObject m))))"

definition meta_server :: "string \<Rightarrow> string \<Rightarrow> details option reply \<Rightarrow> http_response" where
  "meta_server ty ident net =
    (case metaTry_server ty ident net of
       Inr res \<Rightarrow> res
     | Inl error \<Rightarrow> status_json 500 (ErrorMessage ''Failed to fetch metadata''))"




text \<open>
  The second file of part_002: \<open>getContentDetails\<close> wraps its request in
  \<open>_withBuildIdRetry\<close>. The network may answer according to the client (the build id is
  part of the address) and to the attempt.
\<close>

definition getContentDetails_retry ::
  "(client \<Rightarrow> nat \<Rightarrow> details option reply) \<Rightarrow> int \<times> body reply \<Rightarrow> int \<times> body reply \<Rightarrow> client
     \<Rightarrow> js_error + (details option \<times> client \<times> event list)" where
  "getContentDetails_retry net io1 io2 c =
    withBuildIdRetry
      (\<lambda>c' attempt.
         case axios_get defaultValidateStatus (net c' attempt) of
           Inl e \<Rightarrow> Inl e
         | Inr response \<Rightarrow> Inr (data response))
      io1 io2 c"

definition metaTry_retry ::
  "string \<Rightarrow> string \<Rightarrow> (client \<Rightarrow> nat \<Rightarrow> details option reply) \<Rightarrow> int \<times> body reply \<Rightarrow> int \<times> body reply
     \<Rightarrow> client \<Rightarrow> js_error + http_response" where
  "metaTry_retry ty ident net io1 io2 c =
    (case getContentDetails_retry net io1 io2 c of
       Inl e \<Rightarrow> Inl e
     | Inr (None, c', tr) \<Rightarrow> Inr (json EmptyMeta)
     | Inr (Some d, c', tr) \<Rightarrow>
         (case addVideos (videoEntry_retry ident) ty d (metaOf_server ty ident d) of
            Inl err \<Rightarrow> Inl err
          | Inr m \<Rightarrow> Inr (json (MetaObject m))))"

definition meta_retry ::
  "string \<Rightarrow> string \<Rightarrow> (client \<Rightarrow> nat \<Rightarrow> details option reply) \<Rightarrow> int \<times> body reply \<Rightarrow> int \<times> body reply
     \<Rightarrow> client \<Rightarrow> http_response" where
  "meta_retry ty ident net io1 io2 c =
    (case metaTry_retry ty ident net io1 io2 c of
       Inr res \<Rightarrow> res
     | Inl error \<Rightarrow> json EmptyMeta)"

section \<open>Stream route\<close>

text \<open>A source of the stream endpoint, and the body of its reply (\<open>None\<close>: no \<open>sources\<close>).\<close>

record source =
  src_url :: jsval
  src_quality :: jsval
  src_type :: jsval

record stream_data =
  sources :: "source option list option"

text \<open>
  The stream built from a source and its index:
  \<open>{ url: source.url, title: `${source.quality || 'Auto'} - Server ${index + 1}`,
  behaviorHints: { notWebReady: source.type !== 'mp4' } }\<close>
\<close>

definition streamOf :: "source \<Rightarrow> nat \<Rightarrow> stream" where
  "streamOf src index =
    \<lparr>s_url = src_url src,
     s_title = toStr (js_or (src_quality src) (JStr ''Auto'')) @ '' - Server '' @ showNat (index + 1),
     notWebReady = (src_type src \<noteq> JStr ''mp4'')\<rparr>"

text \<open>\<open>title.split(' - ')[0]\<close>: the text before the first separator, all of it if there is none.\<close>

fun beforeSeparator :: "string \<Rightarrow> string" where
  "beforeSeparator [] = []"
| "beforeSeparator (ch # s) =
    (if take 3 (ch # s) = '' - '' then [] else ch # beforeSeparator s)"

text \<open>
  The table \<open>qualityOrder\<close> is an object literal. Besides its four own keys it answers,
  like every object, to the names it inherits from \<open>Object.prototype\<close>, with a function
  or an object; \<open>(qualityOrder[q] || 0)\<close> is then no number and the comparison is \<open>NaN\<close>.
\<close>

definition qualityOrder :: "(string \<times> int) list" where
  "qualityOrder = [(''1080p'', 4), (''720p'', 3), (''480p'', 2), (''Auto'', 1)]"

definition inheritedName :: "string \<Rightarrow> bool" where
  "inheritedName q =
    (q \<in> set [''constructor'', ''__defineGetter__'', ''__defineSetter__'', ''hasOwnProperty'',
               ''__lookupGetter__'', ''__lookupSetter__'', ''isPrototypeOf'',
               ''propertyIsEnumerable'', ''toString'', ''valueOf'', ''__proto__'',
               ''toLocaleString''])"

text \<open>\<open>qualityOrder[q] || 0\<close> for a name that is not inherited.\<close>

definition qualityRank :: "string \<Rightarrow> int" where
  "qualityRank q = (case map_of qualityOrder q of Some n \<Rightarrow> n | None \<Rightarrow> 0)"

definition qualityOf :: "stream \<Rightarrow> string" where
  "qualityOf s = beforeSeparator (s_title s)"

text \<open>
  The comparator of \<open>streams.sort\<close>: \<open>rank(b) - rank(a)\<close>. A \<open>NaN\<close> result counts as 0
  for \<open>sort\<close>.
\<close>

definition compareQuality :: "stream \<Rightarrow> stream \<Rightarrow> int" where
  "compareQuality a b =
    (if inheritedName (qualityOf a) \<or> inheritedName (qualityOf b) then 0
     else qualityRank (qualityOf b) - qualityRank (qualityOf a))"

text \<open>
  \<open>Array.prototype.sort\<close> with a comparator, as V8 runs it from version 7.0 (Node.js 11)
  on, for an array of fewer than 64 elements: the run the array starts with is found
  and, when it is descending, reversed; then each further element is put into the
  sorted part in front of it by binary insertion. With 64 elements or more V8 cuts the
  array into several such runs and merges them; for a comparator that is a consistent
  ordering the result is the same, the one stable sort.
\<close>

text \<open>
  How many elements after the second continue the run: a descending run ends at the
  first element that does not compare below its predecessor, an ascending run at the
  first that does.
\<close>

fun runRest :: "('a \<Rightarrow> 'a \<Rightarrow> int) \<Rightarrow> bool \<Rightarrow> 'a \<Rightarrow> 'a list \<Rightarrow> nat" where
  "runRest cmp isDescending previous [] = 0"
| "runRest cmp isDescending previous (current # rest) =
    (let order = cmp current previous in
     if (if isDescending then 0 \<le> order else order < 0) then 0
     else Suc (runRest cmp isDescending current rest))"

text \<open>The first run, made ascending, and the elements behind it.\<close>

definition countAndMakeRun :: "('a \<Rightarrow> 'a \<Rightarrow> int) \<Rightarrow> 'a list \<Rightarrow> 'a list \<times> 'a list" where
  "countAndMakeRun cmp xs =
    (case xs of
       [] \<Rightarrow> ([], [])
     | [x] \<Rightarrow> ([x], [])
     | x # y # rest \<Rightarrow>
         (let isDescending = (cmp y x < 0);
              runLength = 2 + runRest cmp isDescending y rest
          in (if isDescending then rev (take runLength xs) else take runLength xs,
              drop runLength xs)))"

text \<open>
  The place of the pivot among the elements from \<open>left\<close> up to \<open>right\<close>: the
  interval is halved until it is empty.
\<close>

function binarySearch :: "('a \<Rightarrow> 'a \<Rightarrow> int) \<Rightarrow> 'a \<Rightarrow> 'a list \<Rightarrow> nat \<Rightarrow> nat \<Rightarrow> nat" where
  "binarySearch cmp pivot xs left right =
    (if left < right then
       (let mid = left + (right - left) div 2 in
        if cmp pivot (xs ! mid) < 0 then binarySearch cmp pivot xs left mid
        else binarySearch cmp pivot xs (mid + 1) right)
     else left)"
  by pat_completeness auto
termination
  by (relation "measure (\<lambda>(cmp, pivot, xs, left, right). right - left)") auto

declare binarySearch.simps [simp del]

definition insertPivot :: "('a \<Rightarrow> 'a \<Rightarrow> int) \<Rightarrow> 'a list \<Rightarrow> 'a \<Rightarrow> 'a list" where
  "insertPivot cmp front pivot =
    (let left = binarySearch cmp pivot front 0 (length front)
     in take left front @ pivot # drop left front)"

definition binaryInsertionSort :: "('a \<Rightarrow> 'a \<Rightarrow> int) \<Rightarrow> 'a list \<Rightarrow> 'a list \<Rightarrow> 'a list" where
  "binaryInsertionSort cmp run rest = foldl (insertPivot cmp) run rest"

definition jsSort :: "('a \<Rightarrow> 'a \<Rightarrow> int) \<Rightarrow> 'a list \<Rightarrow> 'a list" where
  "jsSort cmp xs =
    (if length xs < 2 then xs
     else (case countAndMakeRun cmp xs of (run, rest) \<Rightarrow> binaryInsertionSort cmp run rest))"

definition sortStreams :: "stream list \<Rightarrow> stream list" where
  "sortStreams streams = jsSort compareQuality streams"

text \<open>\<open>xs.map((x, index) => f(x, index))\<close>\<close>

definition mapIndexed :: "('a \<Rightarrow> nat \<Rightarrow> 'b) \<Rightarrow> 'a list \<Rightarrow> 'b list" where
  "mapIndexed f xs = map (\<lambda>(x, index). f x index) (zip xs [0..<length xs])"

text \<open>
  server.js and the second file of part_002: \<open>streamData.sources.map(...)\<close>, then the
  sort. Reading \<open>url\<close> of a \<open>null\<close> source throws.
\<close>

definition streamsOf_server :: "source option list \<Rightarrow> js_error + stream list" where
  "streamsOf_server srcs =
    (if None \<in> set srcs then Inl TypeError
     else Inr (sortStreams (mapIndexed streamOf (map the srcs))))"

text \<open>
  The first file of part_002: \<open>.filter(source => source && source.url)\<close> comes first,
  so the index counts the sources that are kept.
\<close>

definition streamsOf_prod :: "source option list \<Rightarrow> stream list" where
  "streamsOf_prod srcs =
    sortStreams
      (mapIndexed streamOf
        (map the (filter (\<lambda>so. case so of None \<Rightarrow> False | Some src \<Rightarrow> truthy (src_url src)) srcs)))"

text \<open>
  \<open>getStreamSources\<close> of server.js and of the second file of part_002: the body, or
  \<open>null\<close> when the request fails. The payload of the reply is the body, \<open>None\<close> when
  it is \<open>null\<close> or empty.
\<close>

definition getStreamSources_server :: "stream_data option reply \<Rightarrow> stream_data option" where
  "getStreamSources_server net =
    (case axios_get defaultValidateStatus net of
       Inr response \<Rightarrow> data response
     | Inl error \<Rightarrow> None)"

text \<open>
  The \<open>try\<close> block of \<open>app.get('/stream/:type/:id')\<close>, the same in both files; they
  differ in the \<open>catch\<close>.
\<close>

definition streamTry_server :: "stream_data option reply \<Rightarrow> js_error + http_response" where
  "streamTry_server net =
    (case getStreamSources_server net of
       None \<Rightarrow> Inr (json (Streams []))
     | Some streamData \<Rightarrow>
         (case sources streamData of
            None \<Rightarrow> Inr (json (Streams []))
          | Some srcs \<Rightarrow>
              (case streamsOf_server srcs of
                 Inl err \<Rightarrow> Inl err
               | Inr streams \<Rightarrow> Inr (json (Streams streams)))))"

definition stream_server :: "stream_data option reply \<Rightarrow> http_response" where
  "stream_server net =
    (case streamTry_server net of
       Inr res \<Rightarrow> res
     | Inl error \<Rightarrow> status_json 500 (ErrorMessage ''Failed to fetch streams''))"

definition stream_retry :: "stream_data option reply \<Rightarrow> http_response" where
  "stream_retry net =
    (case streamTry_server net of
       Inr res \<Rightarrow> res
     | Inl error \<Rightarrow> json (Streams []))"

section \<open>Catalog route of the second file of part_002\<close>

text \<open>
  The methods of this client end in \<open>return this._withBuildIdRetry(...) || []\<close>. The
  promise returned by \<open>_withBuildIdRetry\<close> is an object, so \<open>|| []\<close> never applies: the
  method gives what the wrapper gives, \<open>null\<close> included. The wrapped operation itself
  gives the list found in the body, or \<open>[]\<close>.
\<close>

definition listLookup_retry ::
  "(client \<Rightarrow> nat \<Rightarrow> 'a list option reply) \<Rightarrow> int \<times> body reply \<Rightarrow> int \<times> body reply \<Rightarrow> client
     \<Rightarrow> js_error + ('a list option \<times> client \<times> event list)" where
  "listLookup_retry net io1 io2 c =
    withBuildIdRetry
      (\<lambda>c' attempt.
         case axios_get defaultValidateStatus (net c' attempt) of
           Inl e \<Rightarrow> Inl e
         | Inr response \<Rightarrow> Inr (Some (case data response of Some xs \<Rightarrow> xs | None \<Rightarrow> [])))
      io1 io2 c"

text \<open>
  The query of the request: each parameter is a string or missing. \<open>skip\<close> is used
  as it comes: \<open>slice(skip, skip + 20)\<close> with a string \<open>skip\<close> appends \<open>20\<close> to the text
  before both are converted to integers. The conversion (\<open>ToIntegerOrInfinity\<close> of a
  string) is a parameter here; a text that converts to an infinity is outside the model.
\<close>

record query =
  q_search :: "string option"
  q_skip :: "string option"
  q_genre :: "string option"

definition sliceWindow_retry :: "(string \<Rightarrow> int) \<Rightarrow> string option \<Rightarrow> 'a list \<Rightarrow> 'a list" where
  "sliceWindow_retry toInteger skip xs =
    (case skip of
       None \<Rightarrow> jsSlice 0 20 xs
     | Some text \<Rightarrow> jsSlice (toInteger text) (toInteger (text @ ''20'')) xs)"

text \<open>\<open>found.filter(...)\<close> and \<open>found.map(...)\<close> on what the client gave: \<open>null\<close> has neither.\<close>

definition filterKind_retry :: "string \<Rightarrow> item option list option \<Rightarrow> js_error + item list" where
  "filterKind_retry kind found =
    (case found of None \<Rightarrow> Inl TypeError | Some items \<Rightarrow> filterKind_server kind items)"

definition catalogTry_retry ::
  "(string \<Rightarrow> int) \<Rightarrow> string \<Rightarrow> string \<Rightarrow> query
     \<Rightarrow> (client \<Rightarrow> nat \<Rightarrow> item option list option reply) \<Rightarrow> int \<times> body reply \<Rightarrow> int \<times> body reply
     \<Rightarrow> client \<Rightarrow> js_error + http_response" where
  "catalogTry_retry toInteger ty ident q net io1 io2 c =
    (if truthyId (q_search q) then
       (case listLookup_retry net io1 io2 c of
          Inl e \<Rightarrow> Inl e
        | Inr (searchResults, c', tr) \<Rightarrow>
            (case filterKind_retry (wantedKind ty) searchResults of
               Inl e \<Rightarrow> Inl e
             | Inr found \<Rightarrow> Inr (json (Metas (map transformToStremioMeta_server found)))))
     else if ident = ''cineby-trending-movies'' \<or> ident = ''cineby-trending-series'' then
       (case listLookup_retry net io1 io2 c of
          Inl e \<Rightarrow> Inl e
        | Inr (trending, c', tr) \<Rightarrow>
            (case filterKind_retry (wantedKind ty) trending of
               Inl e \<Rightarrow> Inl e
             | Inr found \<Rightarrow>
                 Inr (json (Metas (map transformToStremioMeta_server
                                     (sliceWindow_retry toInteger (q_skip q) found))))))
     else if ident = ''cineby-movies'' then
       (case listLookup_retry net io1 io2 c of
          Inl e \<Rightarrow> Inl e
        | Inr (None, c', tr) \<Rightarrow> Inl TypeError
        | Inr (Some movies, c', tr) \<Rightarrow>
            Inr (json (Metas (map (\<lambda>i. transformToStremioMeta_server (spreadMediaType i ''movie''))
                                movies))))
     else if ident = ''cineby-series'' then
       (case listLookup_retry net io1 io2 c of
          Inl e \<Rightarrow> Inl e
        | Inr (None, c', tr) \<Rightarrow> Inl TypeError
        | Inr (Some tvShows, c', tr) \<Rightarrow>
            Inr (json (Metas (map (\<lambda>i. transformToStremioMeta_server (spreadMediaType i ''tv''))
                                tvShows))))
     else Inr (json (Metas [])))"

definition catalog_retry ::
  "(string \<Rightarrow> int) \<Rightarrow> string \<Rightarrow> string \<Rightarrow> query
     \<Rightarrow> (client \<Rightarrow> nat \<Rightarrow> item option list option reply) \<Rightarrow> int \<times> body reply \<Rightarrow> int \<times> body reply
     \<Rightarrow> client \<Rightarrow> http_response" where
  "catalog_retry toInteger ty ident q net io1 io2 c =
    (case catalogTry_retry toInteger ty ident q net io1 io2 c of
       Inr res \<Rightarrow> res
     | Inl error \<Rightarrow> json (Metas []))"

text \<open>A trending list for the example: 25 times the same movie.\<close>

definition exampleMovie :: item where
  "exampleMovie = emptyItem\<lparr>item_id := JNum 7, mediaType := JStr ''movie''\<rparr>"

definition exampleTrending :: "item option list option reply" where
  "exampleTrending = Reply 200 (Some (replicate 25 (Some exampleMovie)))"

text \<open>
  A stream whose quality label is not one of the inherited names, so that the
  comparator gives a number for it; and the key the comparator then orders by.
\<close>

definition plainQuality :: "stream \<Rightarrow> bool" where
  "plainQuality s = (\<not> inheritedName (qualityOf s))"

definition rankOf :: "stream \<Rightarrow> int" where
  "rankOf s = qualityRank (qualityOf s)"

text \<open>The three sources of the example: qualities Auto, 1080p and 720p, in this order.\<close>

definition exampleSources :: "source list" where
  "exampleSources =
    [\<lparr>src_url = JStr ''u1'', src_quality = JStr ''Auto'', src_type = JStr ''mp4''\<rparr>,
     \<lparr>src_url = JStr ''u2'', src_quality = JStr ''1080p'', src_type = JStr ''mp4''\<rparr>,
     \<lparr>src_url = JStr ''u3'', src_quality = JStr ''720p'', src_type = JStr ''mp4''\<rparr>]"

text \<open>
  Three sources of which the second carries, as its quality label, a name that every
  object inherits: \<open>constructor\<close>.
\<close>

definition inheritedNameSources :: "source list" where
  "inheritedNameSources =
    [\<lparr>src_url = JStr ''u1'', src_quality = JStr ''Auto'', src_type = JStr ''mp4''\<rparr>,
     \<lparr>src_url = JStr ''u2'', src_quality = JStr ''constructor'', src_type = JStr ''mp4''\<rparr>,
     \<lparr>src_url = JStr ''u3'', src_quality = JStr ''1080p'', src_type = JStr ''mp4''\<rparr>]"









text \<open>
  A reply axios resolves with under the default \<open>validateStatus\<close>; every other reply,
  and no reply, makes \<open>axios.get\<close> throw.
\<close>

definition succeeds :: "'a reply \<Rightarrow> bool" where
  "succeeds r = (case r of Reply st d \<Rightarrow> defaultValidateStatus st | NoReply \<Rightarrow> False)"

section \<open>Properties: genre projection\<close>




section \<open>Properties: build identifier cache\<close>

lemma getBuildIdWith_returns:
  "\<exists>r c' tr. getBuildIdWith grp force now home c = Inr (r, c', tr) \<and> set tr \<subseteq> {HomepageRequest}"
  by (simp add: getBuildIdWith_def Let_def split: sum.split option.split)


lemma getBuildIdWith_failure:
  "refreshFails grp home \<Longrightarrow> \<exists>tr. getBuildIdWith grp force now home c = Inr (buildId c, c, tr)"
  by (auto simp add: getBuildIdWith_def refreshFails_def Let_def split: sum.splits option.splits)

lemma getBuildId_server_failure:
  "refreshFails groupNonQuote home \<Longrightarrow> getBuildId_server home s = Inr (None, s, [HomepageRequest])"
  by (auto simp add: getBuildId_server_def refreshFails_def split: sum.splits option.splits)

lemma refreshFails_NoReply: "refreshFails grp NoReply"
  by (simp add: refreshFails_def tryFetchBuildId_def axios_get_def)

text \<open>
  C2, as amended. A call \<open>getBuildId(false)\<close> of part_000 and part_001, made while the
  cache holds a non-empty identifier fetched less than one hour (3600000 ms) before,
  makes no request, returns that identifier and leaves identifier and timestamp as
  they were, whatever the network would have answered.
\<close>

theorem getBuildId_cached:
  "buildId c = Some b \<Longrightarrow> b \<noteq> [] \<Longrightarrow> now - buildIdFetchedAt c < 3600 * 1000
     \<Longrightarrow> getBuildId False now home c = Inr (Some b, c, [])"
  by (simp add: getBuildId_def getBuildIdWith_def truthyId_def)

theorem getBuildId_cached_witness:
  "getBuildId False 2000 NoReply \<lparr>buildId = Some ''abc'', buildIdFetchedAt = 1000\<rparr>
     = Inr (Some ''abc'', \<lparr>buildId = Some ''abc'', buildIdFetchedAt = 1000\<rparr>, [])"
  using getBuildId_cached [of "\<lparr>buildId = Some ''abc'', buildIdFetchedAt = 1000\<rparr>" "''abc''" 2000 NoReply]
  by simp

text \<open>
  C2 as stated fails for the empty identifier, which the pattern \<open>(.*?)\<close> of part_000
  and part_001 can capture: a homepage holding the key with an empty value makes the
  first call cache the empty string at time 1000; a call \<open>getBuildId(false)\<close> one second
  later finds \<open>this.buildId\<close> falsy, asks the network again and replaces the cache.
\<close>

theorem getBuildId_empty_identifier_refetched:
  "getBuildId False 1000 (Reply 200 (TextBody (buildIdKey @ [dquote]))) newClient
     = Inr (Some [], \<lparr>buildId = Some [], buildIdFetchedAt = 1000\<rparr>, [HomepageRequest])
   \<and> getBuildId False 2000 (Reply 200 (TextBody (buildIdKey @ ''new'' @ [dquote])))
        \<lparr>buildId = Some [], buildIdFetchedAt = 1000\<rparr>
     = Inr (Some ''new'', \<lparr>buildId = Some ''new'', buildIdFetchedAt = 2000\<rparr>, [HomepageRequest])"
  by (simp add: getBuildId_def getBuildIdWith_def truthyId_def newClient_def tryFetchBuildId_def
      axios_get_def defaultValidateStatus_def matchAt_def buildIdKey_def groupLazy_def dquote_def
      lineTerminator_def)

text \<open>
  C3, as amended. No call of \<open>getBuildId\<close> raises, in part_000 and part_001 and in
  server.js. When the homepage fetch or the pattern match fails, the stored identifier
  (and, in part_000 and part_001, its timestamp) stays as it was; the call of part_000
  and part_001 returns the stored identifier (\<open>null\<close> if there is none), the call of
  server.js returns nothing.
\<close>

theorem getBuildId_failure_keeps_cache:
  "(\<exists>out. getBuildId force now home c = Inr out)
   \<and> (refreshFails groupLazy home \<longrightarrow> (\<exists>tr. getBuildId force now home c = Inr (buildId c, c, tr)))
   \<and> (\<exists>out. getBuildId_server home s = Inr out)
   \<and> (refreshFails groupNonQuote home \<longrightarrow> getBuildId_server home s = Inr (None, s, [HomepageRequest]))"
proof -
  have "\<exists>out. getBuildId force now home c = Inr out"
    using getBuildIdWith_returns [of groupLazy force now home c]
    by (auto simp: getBuildId_def)
  moreover have "\<exists>out. getBuildId_server home s = Inr out"
    by (simp add: getBuildId_server_def split: sum.split option.split)
  ultimately show ?thesis
    using getBuildIdWith_failure [of groupLazy home force now c] getBuildId_server_failure [of home s]
    by (simp add: getBuildId_def)
qed

theorem getBuildId_failure_keeps_cache_witness:
  "refreshFails groupLazy NoReply
   \<and> getBuildId True 5000 NoReply \<lparr>buildId = Some ''abc'', buildIdFetchedAt = 1000\<rparr>
       = Inr (Some ''abc'', \<lparr>buildId = Some ''abc'', buildIdFetchedAt = 1000\<rparr>, [HomepageRequest])
   \<and> refreshFails groupNonQuote NoReply
   \<and> getBuildId_server NoReply \<lparr>buildId_server = ''abc''\<rparr>
       = Inr (None, \<lparr>buildId_server = ''abc''\<rparr>, [HomepageRequest])"
proof -
  have f: "refreshFails grp NoReply" for grp
    by (rule refreshFails_NoReply)
  have g: "getBuildId True 5000 NoReply \<lparr>buildId = Some ''abc'', buildIdFetchedAt = 1000\<rparr>
       = Inr (Some ''abc'', \<lparr>buildId = Some ''abc'', buildIdFetchedAt = 1000\<rparr>, [HomepageRequest])"
    by (simp add: getBuildId_def getBuildIdWith_def tryFetchBuildId_def axios_get_def)
  from getBuildId_failure_keeps_cache
         [of True 5000 NoReply "\<lparr>buildId = Some ''abc'', buildIdFetchedAt = 1000\<rparr>"
             "\<lparr>buildId_server = ''abc''\<rparr>"]
       f g
  show ?thesis
    by simp
qed

text \<open>
  C3 as stated fails in server.js: after a first call has stored the identifier
  \<open>abc\<close>, a call whose fetch fails leaves \<open>abc\<close> stored, but returns \<open>undefined\<close>,
  not the stored identifier.
\<close>

theorem getBuildId_server_returns_nothing:
  "getBuildId_server (Reply 200 (TextBody (buildIdKey @ ''abc'' @ [dquote]))) newClient_server
     = Inr (None, \<lparr>buildId_server = ''abc''\<rparr>, [HomepageRequest])
   \<and> getBuildId_server NoReply \<lparr>buildId_server = ''abc''\<rparr>
     = Inr (None, \<lparr>buildId_server = ''abc''\<rparr>, [HomepageRequest])
   \<and> getBuildId_server NoReply \<lparr>buildId_server = ''abc''\<rparr>
     \<noteq> Inr (Some ''abc'', \<lparr>buildId_server = ''abc''\<rparr>, [HomepageRequest])"
  by (simp add: getBuildId_server_def newClient_server_def tryFetchBuildId_def
      axios_get_def defaultValidateStatus_def matchAt_def buildIdKey_def groupNonQuote_def dquote_def)

section \<open>Properties: retry on a stale identifier\<close>


text \<open>
  Two runs: an operation that fails with 403 is run once, and the result is \<open>null\<close>;
  an operation that fails with 404 and succeeds on the second run gives its value, after
  one forced refresh that stores the new identifier.
\<close>

lemma withBuildIdRetry_examples:
  "withBuildIdRetry (\<lambda>c' attempt. Inl (AxiosError (Some 403))) (1000, NoReply) (2000, NoReply) newClient
     = Inr (None :: string option, newClient, [GetBuildIdCall False, HomepageRequest, OperationCall])
   \<and> withBuildIdRetry
        (\<lambda>c' attempt. if attempt = 0 then Inl (AxiosError (Some 404)) else Inr (Some ''ok''))
        (1000, NoReply) (2000, Reply 200 (TextBody (buildIdKey @ ''b2'' @ [dquote]))) newClient
     = Inr (Some ''ok'', \<lparr>buildId = Some ''b2'', buildIdFetchedAt = 2000\<rparr>,
            [GetBuildIdCall False, HomepageRequest, OperationCall,
             GetBuildIdCall True, HomepageRequest, OperationCall])"
  by code_simp


section \<open>Properties: request executor\<close>

text \<open>
  C8, as amended. \<open>makeRequest\<close> never raises. It returns the parsed body exactly when
  the response status is 200; every other status below 500 (the other 2xx and every
  4xx among them) is accepted by \<open>validateStatus\<close> without raising and gives \<open>null\<close>;
  a status of 500 or more and a request without an answer raise inside axios, are
  caught, and give \<open>null\<close>.
\<close>

theorem makeRequest_result:
  "makeRequest (r :: 'a reply)
     = Inr (case r of Reply st d \<Rightarrow> if st = 200 then Some d else None | NoReply \<Rightarrow> None)
   \<and> (400 \<le> st \<and> st < 500 \<longrightarrow>
        axios_get validateStatus_prod (Reply st (d :: 'a)) = Inr (Response st d)
        \<and> makeRequest (Reply st d) = Inr None)
   \<and> (500 \<le> st \<longrightarrow>
        axios_get validateStatus_prod (Reply st d) = Inl (AxiosError (Some st))
        \<and> makeRequest (Reply st d) = Inr None)
   \<and> (axios_get validateStatus_prod (NoReply :: 'a reply) = Inl (AxiosError None)
        \<and> makeRequest (NoReply :: 'a reply) = Inr None)"
  by (cases r) (auto simp: makeRequest_def axios_get_def validateStatus_prod_def)

theorem makeRequest_result_witness:
  "makeRequest (Reply 200 ''{}'') = Inr (Some ''{}'')
   \<and> makeRequest (Reply 404 ''Not Found'') = Inr None
   \<and> makeRequest (Reply 503 ''Unavailable'') = Inr None
   \<and> makeRequest (NoReply :: string reply) = Inr None"
  using makeRequest_result [of "Reply 200 ''{}''" 404 "''Not Found''"]
        makeRequest_result [of "NoReply :: string reply" 503 "''Unavailable''"]
  by simp

text \<open>
  C8 as stated fails for a 2xx status other than 200: a response 203 with a body is
  accepted by axios, and \<open>makeRequest\<close> returns \<open>null\<close>, not the body.
\<close>

theorem makeRequest_203_is_null:
  "axios_get validateStatus_prod (Reply 203 ''{}'') = Inr (Response 203 ''{}'')
   \<and> makeRequest (Reply 203 ''{}'') = Inr None
   \<and> makeRequest (Reply 203 ''{}'') \<noteq> Inr (Some ''{}'')"
  by (simp add: makeRequest_def axios_get_def validateStatus_prod_def)

section \<open>Properties: projection of an item\<close>

text \<open>
  C9. The \<open>type\<close> of the meta projected by \<open>transformToStremioMeta\<close> is \<open>movie\<close> exactly
  when the item's \<open>mediaType\<close> is the string \<open>movie\<close>, and \<open>series\<close> in every other case
  (missing, \<open>tv\<close>, anything else); so it is one of the two. In server.js every item
  is projected; in the first file of part_002 an item is projected when its id is
  truthy, and \<open>null\<close> is returned otherwise.
\<close>

theorem transformToStremioMeta_type:
  "m_type (transformToStremioMeta_server i)
     = (if mediaType i = JStr ''movie'' then ''movie'' else ''series'')
   \<and> (m_type (transformToStremioMeta_server i) = ''movie''
        \<or> m_type (transformToStremioMeta_server i) = ''series'')
   \<and> map_option m_type (transformToStremioMeta_prod (Some i))
     = (if truthy (item_id i)
        then Some (if mediaType i = JStr ''movie'' then ''movie'' else ''series'')
        else None)
   \<and> transformToStremioMeta_prod None = None"
  by (simp add: transformToStremioMeta_server_def transformToStremioMeta_prod_def Let_def)

section \<open>Properties: catalog route\<close>

lemma length_jsSlice_window: "length (jsSlice skip (skip + 20) xs) \<le> 20"
proof -
  let ?len = "int (length xs)"
  let ?k = "if skip < 0 then max (?len + skip) 0 else min skip ?len"
  let ?final = "if skip + 20 < 0 then max (?len + (skip + 20)) 0 else min (skip + 20) ?len"
  have "?final - ?k \<le> 20"
    by (simp add: min_def max_def)
  then have "nat (?final - ?k) \<le> 20"
    by linarith
  then have "length (take (nat (?final - ?k)) (drop (nat ?k) xs)) \<le> 20"
    by (simp only: length_take min.coboundedI2)
  then show ?thesis
    unfolding jsSlice_def Let_def .
qed

lemma length_projectAll_prod: "length (projectAll_prod items) \<le> length items"
  by (simp add: projectAll_prod_def le_trans [OF length_filter_le])

lemma listOrEmpty_prod_returns: "\<exists>xs. listOrEmpty_prod r = Inr xs"
  by (cases r) (auto simp: listOrEmpty_prod_def makeRequest_def axios_get_def split: option.splits)

text \<open>
  C10. A request to a trending catalog (\<open>cineby-trending-movies\<close> or
  \<open>cineby-trending-series\<close>) without a search term is answered with at most 20 metas: the
  filtered list is cut to \<open>slice(skip, skip + 20)\<close> before the projection. In server.js
  the answer is the error 500 instead when the trending list holds a \<open>null\<close>; in the
  first file of part_002 it is the error 400 instead when the type is neither \<open>movie\<close>
  nor \<open>series\<close>.
\<close>

theorem trending_catalog_at_most_20:
  assumes "ident = ''cineby-trending-movies'' \<or> ident = ''cineby-trending-series''"
    and "\<not> truthyId (searchOf extra)"
  shows "(\<exists>ms. length ms \<le> 20 \<and>
           catalog_server ty ident extra net
             = (if None \<in> set (listOrEmpty_server net)
                then status_json 500 (ErrorMessage ''Failed to fetch catalog'')
                else json (Metas ms)))
       \<and> (\<exists>ms. length ms \<le> 20 \<and>
           catalog_prod ty ident extra net
             = (if ty \<noteq> ''movie'' \<and> ty \<noteq> ''series''
                then status_json 400 (ErrorMessage ''Invalid type'')
                else json (Metas ms)))"
proof
  show "\<exists>ms. length ms \<le> 20 \<and>
           catalog_server ty ident extra net
             = (if None \<in> set (listOrEmpty_server net)
                then status_json 500 (ErrorMessage ''Failed to fetch catalog'')
                else json (Metas ms))"
    using assms
    by (auto simp: catalog_server_def catalogTry_server_def filterKind_server_def Let_def
             intro!: exI [of _ "map transformToStremioMeta_server (jsSlice skip (skip + 20) found)" for skip found]
                     length_jsSlice_window)
next
  obtain trending where t: "listOrEmpty_prod net = Inr trending"
    using listOrEmpty_prod_returns by blast
  have "length (projectAll_prod (jsSlice skip (skip + 20) ys)) \<le> 20" for skip and ys :: "item option list"
    using length_projectAll_prod [of "jsSlice skip (skip + 20) ys"] length_jsSlice_window [of skip ys]
    by simp
  then show "\<exists>ms. length ms \<le> 20 \<and>
           catalog_prod ty ident extra net
             = (if ty \<noteq> ''movie'' \<and> ty \<noteq> ''series''
                then status_json 400 (ErrorMessage ''Invalid type'')
                else json (Metas ms))"
    using assms t
    by (auto simp: catalog_prod_def catalogTry_prod_def Let_def)
qed


theorem trending_catalog_at_most_20_witness:
  "(\<exists>ms. length ms \<le> 20 \<and>
      catalog_server ''movie'' ''cineby-trending-movies''
        (Some \<lparr>x_search = None, x_skip = Some 0, x_genre = None\<rparr>) exampleTrending
      = json (Metas ms))
   \<and> (\<exists>ms. length ms \<le> 20 \<and>
      catalog_prod ''movie'' ''cineby-trending-movies''
        (Some \<lparr>x_search = None, x_skip = Some 0, x_genre = None\<rparr>) exampleTrending
      = json (Metas ms))"
  using trending_catalog_at_most_20
          [of "''cineby-trending-movies''" "Some \<lparr>x_search = None, x_skip = Some 0, x_genre = None\<rparr>"
              "''movie''" exampleTrending]
  by (simp add: searchOf_def truthyId_def listOrEmpty_server_def axios_get_def
        defaultValidateStatus_def exampleTrending_def)

text \<open>With these 25 movies both handlers answer with exactly 20 metas.\<close>

lemma trending_example_20:
  "map_option length
     (case res_body (catalog_server ''movie'' ''cineby-trending-movies''
                       (Some \<lparr>x_search = None, x_skip = Some 0, x_genre = None\<rparr>) exampleTrending) of
        Metas ms \<Rightarrow> Some ms | _ \<Rightarrow> None) = Some 20
   \<and> map_option length
     (case res_body (catalog_prod ''movie'' ''cineby-trending-movies''
                       (Some \<lparr>x_search = None, x_skip = Some 0, x_genre = None\<rparr>) exampleTrending) of
        Metas ms \<Rightarrow> Some ms | _ \<Rightarrow> None) = Some 20"
  by code_simp

section \<open>Properties: quality sort of the streams\<close>

text \<open>
  A comparator that orders by a key: on such elements the sort above is the stable
  sort by that key.
\<close>

lemma binarySearch_place:
  assumes "sorted (map f xs)"
    and "\<And>a b. a \<in> A \<Longrightarrow> b \<in> A \<Longrightarrow> (cmp a b < 0) = (f a < f b)"
    and "set xs \<subseteq> A" and "p \<in> A"
    and "l \<le> r" and "r \<le> length xs"
  shows "l \<le> binarySearch cmp p xs l r \<and> binarySearch cmp p xs l r \<le> r
       \<and> (\<forall>i. l \<le> i \<and> i < binarySearch cmp p xs l r \<longrightarrow> f (xs ! i) \<le> f p)
       \<and> (\<forall>i. binarySearch cmp p xs l r \<le> i \<and> i < r \<longrightarrow> f p < f (xs ! i))"
  using assms
proof (induction cmp p xs l r rule: binarySearch.induct)
  case (1 cmp pivot xs left right)
  show ?case
  proof (cases "left < right")
    case False
    with "1.prems" show ?thesis
      by (subst (1 2 3 4) binarySearch.simps) auto
  next
    case True
    define mid where "mid = left + (right - left) div 2"
    have mid: "left \<le> mid" "mid < right"
      using True by (auto simp: mid_def)
    have inA: "xs ! mid \<in> A"
      using "1.prems"(3,6) mid by (auto simp: subset_iff)
    have mono: "f (xs ! i) \<le> f (xs ! j)" if "i \<le> j" "j < length xs" for i j
      using "1.prems"(1) that by (simp add: sorted_iff_nth_mono)
    show ?thesis
    proof (cases "cmp pivot (xs ! mid) < 0")
      case below: True
      then have lt: "f pivot < f (xs ! mid)"
        using "1.prems"(2) [OF "1.prems"(4) inA] by simp
      have eq: "binarySearch cmp pivot xs left right = binarySearch cmp pivot xs left mid"
        using True below by (subst binarySearch.simps) (simp add: mid_def Let_def)
      have ih: "left \<le> binarySearch cmp pivot xs left mid \<and> binarySearch cmp pivot xs left mid \<le> mid
          \<and> (\<forall>i. left \<le> i \<and> i < binarySearch cmp pivot xs left mid \<longrightarrow> f (xs ! i) \<le> f pivot)
          \<and> (\<forall>i. binarySearch cmp pivot xs left mid \<le> i \<and> i < mid \<longrightarrow> f pivot < f (xs ! i))"
        using "1.IH"(1) [OF True mid_def below "1.prems"(1,2,3,4)] mid "1.prems"(6) by simp
      have "f pivot < f (xs ! i)" if "mid \<le> i" "i < right" for i
        using lt mono [of mid i] that "1.prems"(6) by simp
      with ih mid show ?thesis
        unfolding eq by (auto simp: not_less) (metis not_less)
    next
      case above: False
      then have le: "f (xs ! mid) \<le> f pivot"
        using "1.prems"(2) [OF "1.prems"(4) inA] by simp
      have eq: "binarySearch cmp pivot xs left right = binarySearch cmp pivot xs (mid + 1) right"
        using True above by (subst binarySearch.simps) (simp add: mid_def Let_def)
      have ih: "mid + 1 \<le> binarySearch cmp pivot xs (mid + 1) right
          \<and> binarySearch cmp pivot xs (mid + 1) right \<le> right
          \<and> (\<forall>i. mid + 1 \<le> i \<and> i < binarySearch cmp pivot xs (mid + 1) right \<longrightarrow> f (xs ! i) \<le> f pivot)
          \<and> (\<forall>i. binarySearch cmp pivot xs (mid + 1) right \<le> i \<and> i < right \<longrightarrow> f pivot < f (xs ! i))"
        using "1.IH"(2) [OF True mid_def above "1.prems"(1,2,3,4)] mid "1.prems"(6) by simp
      have "f (xs ! i) \<le> f pivot" if "i \<le> mid" for i
        using le mono [of i mid] that mid "1.prems"(6) by simp
      with ih mid show ?thesis
        unfolding eq by (auto simp: not_less) (metis Suc_leI not_less)
    qed
  qed
qed

lemma insertPivot_split:
  assumes "sorted (map f front)"
    and "\<And>a b. a \<in> A \<Longrightarrow> b \<in> A \<Longrightarrow> (cmp a b < 0) = (f a < f b)"
    and "set front \<subseteq> A" and "p \<in> A"
  shows "\<exists>k \<le> length front. insertPivot cmp front p = take k front @ p # drop k front
           \<and> (\<forall>x \<in> set (take k front). f x \<le> f p)
           \<and> (\<forall>x \<in> set (drop k front). f p < f x)"
proof -
  define k where "k = binarySearch cmp p front 0 (length front)"
  have place: "k \<le> length front"
    "\<And>i. i < k \<Longrightarrow> f (front ! i) \<le> f p"
    "\<And>i. k \<le> i \<Longrightarrow> i < length front \<Longrightarrow> f p < f (front ! i)"
    using binarySearch_place [OF assms, of 0 "length front"] by (simp_all add: k_def)
  have "\<forall>x \<in> set (take k front). f x \<le> f p"
    using place(1,2) by (auto simp: in_set_conv_nth)
  moreover have "\<forall>x \<in> set (drop k front). f p < f x"
    using place(1,3) by (auto simp: in_set_conv_nth)
  moreover have "insertPivot cmp front p = take k front @ p # drop k front"
    by (simp add: insertPivot_def k_def Let_def)
  ultimately show ?thesis
    using place(1) by blast
qed

lemma insertPivot_stable:
  assumes "sorted (map f front)"
    and "\<And>a b. a \<in> A \<Longrightarrow> b \<in> A \<Longrightarrow> (cmp a b < 0) = (f a < f b)"
    and "set front \<subseteq> A" and "p \<in> A"
  shows "sorted (map f (insertPivot cmp front p))"
    and "mset (insertPivot cmp front p) = add_mset p (mset front)"
    and "filter (\<lambda>x. f x = c) (insertPivot cmp front p) = filter (\<lambda>x. f x = c) (front @ [p])"
proof -
  from insertPivot_split [OF assms]
  obtain k where k: "k \<le> length front"
    and eq: "insertPivot cmp front p = take k front @ p # drop k front"
    and lo: "\<forall>x \<in> set (take k front). f x \<le> f p"
    and hi: "\<forall>x \<in> set (drop k front). f p < f x"
    by blast
  have st: "sorted (map f (take k front))" "sorted (map f (drop k front))"
    using assms(1) by (simp_all add: sorted_wrt_take sorted_wrt_drop sorted_map)
  from lo hi have "\<forall>x \<in> set (take k front). \<forall>y \<in> set (drop k front). f x \<le> f y"
    by fastforce
  with st lo hi show "sorted (map f (insertPivot cmp front p))"
    by (auto simp: eq sorted_append less_imp_le)
  have "mset (take k front) + mset (drop k front) = mset front"
    by (metis append_take_drop_id mset_append)
  then show "mset (insertPivot cmp front p) = add_mset p (mset front)"
    by (simp add: eq)
  have whole: "filter (\<lambda>x. f x = c) front
        = filter (\<lambda>x. f x = c) (take k front) @ filter (\<lambda>x. f x = c) (drop k front)"
    by (metis append_take_drop_id filter_append)
  show "filter (\<lambda>x. f x = c) (insertPivot cmp front p) = filter (\<lambda>x. f x = c) (front @ [p])"
  proof (cases "f p = c")
    case True
    with hi have "filter (\<lambda>x. f x = c) (drop k front) = []"
      by (auto simp: filter_empty_conv)
    with True whole show ?thesis
      by (simp add: eq)
  next
    case False
    with whole show ?thesis
      by (simp add: eq)
  qed
qed

lemma binaryInsertionSort_stable:
  assumes "\<And>a b. a \<in> A \<Longrightarrow> b \<in> A \<Longrightarrow> (cmp a b < 0) = (f a < f b)"
  shows "sorted (map f front) \<Longrightarrow> set front \<subseteq> A \<Longrightarrow> set rest \<subseteq> A
    \<Longrightarrow> mset front = mset seen
    \<Longrightarrow> (\<And>c. filter (\<lambda>x. f x = c) front = filter (\<lambda>x. f x = c) seen)
    \<Longrightarrow> sorted (map f (binaryInsertionSort cmp front rest))
        \<and> mset (binaryInsertionSort cmp front rest) = mset (seen @ rest)
        \<and> (\<forall>c. filter (\<lambda>x. f x = c) (binaryInsertionSort cmp front rest)
                 = filter (\<lambda>x. f x = c) (seen @ rest))"
proof (induction rest arbitrary: front seen)
  case Nil
  then show ?case
    by (simp add: binaryInsertionSort_def)
next
  case (Cons p rest)
  from Cons.prems have p: "p \<in> A" and rest: "set rest \<subseteq> A"
    by simp_all
  note step = insertPivot_stable [OF Cons.prems(1) assms Cons.prems(2) p]
  have inA: "set (insertPivot cmp front p) \<subseteq> A"
    using step(2) Cons.prems(2) p by (metis insert_subset set_mset_add_mset_insert set_mset_mset)
  have m: "mset (insertPivot cmp front p) = mset (seen @ [p])"
    using step(2) Cons.prems(4) by simp
  have fl: "filter (\<lambda>x. f x = c) (insertPivot cmp front p) = filter (\<lambda>x. f x = c) (seen @ [p])" for c
    using step(3) [of c] Cons.prems(5) [of c] by simp
  from Cons.IH [OF step(1) inA rest m fl]
  show ?case
    by (simp add: binaryInsertionSort_def)
qed

lemma runRest_ascending:
  fixes f :: "'a \<Rightarrow> 'k::linorder"
  assumes "\<And>a b. a \<in> A \<Longrightarrow> b \<in> A \<Longrightarrow> (cmp a b < 0) = (f a < f b)"
  shows "previous \<in> A \<Longrightarrow> set xs \<subseteq> A
    \<Longrightarrow> successively (\<lambda>a b. f a \<le> f b) (previous # take (runRest cmp False previous xs) xs)"
proof (induction xs arbitrary: previous)
  case Nil
  then show ?case by simp
next
  case (Cons current rest)
  then have c: "current \<in> A" and r: "set rest \<subseteq> A"
    by simp_all
  show ?case
    using Cons.IH [OF c r] assms [OF c Cons.prems(1)]
    by (auto simp: Let_def successively_Cons)
qed

lemma runRest_descending:
  fixes f :: "'a \<Rightarrow> 'k::linorder"
  assumes "\<And>a b. a \<in> A \<Longrightarrow> b \<in> A \<Longrightarrow> (cmp a b < 0) = (f a < f b)"
  shows "previous \<in> A \<Longrightarrow> set xs \<subseteq> A
    \<Longrightarrow> successively (\<lambda>a b. f b < f a) (previous # take (runRest cmp True previous xs) xs)"
proof (induction xs arbitrary: previous)
  case Nil
  then show ?case by simp
next
  case (Cons current rest)
  then have c: "current \<in> A" and r: "set rest \<subseteq> A"
    by simp_all
  show ?case
    using Cons.IH [OF c r] assms [OF c Cons.prems(1)]
    by (auto simp: Let_def successively_Cons)
qed

lemma filter_key_distinct:
  "distinct (map f xs) \<Longrightarrow> length (filter (\<lambda>x. f x = c) xs) \<le> 1"
proof (induction xs)
  case Nil
  then show ?case by simp
next
  case (Cons x xs)
  from Cons.prems have "f x \<notin> f ` set xs"
    by simp
  then have "\<forall>y \<in> set xs. f y \<noteq> f x"
    by (metis image_eqI)
  then have "filter (\<lambda>y. f y = f x) xs = []"
    by (simp add: filter_empty_conv)
  with Cons show ?case
    by auto
qed

lemma rev_short: "length xs \<le> 1 \<Longrightarrow> rev xs = xs"
  by (cases xs) auto

lemma countAndMakeRun_stable:
  assumes "\<And>a b. a \<in> A \<Longrightarrow> b \<in> A \<Longrightarrow> (cmp a b < 0) = (f a < f b)"
    and "set xs \<subseteq> A" and "countAndMakeRun cmp xs = (run, rest)"
  shows "\<exists>n. rest = drop n xs \<and> sorted (map f run) \<and> mset run = mset (take n xs)
           \<and> (\<forall>c. filter (\<lambda>x. f x = c) run = filter (\<lambda>x. f x = c) (take n xs))"
proof (cases xs)
  case Nil
  with assms(3) show ?thesis
    by (auto simp: countAndMakeRun_def)
next
  case (Cons x tl)
  show ?thesis
  proof (cases tl)
    case Nil
    with Cons assms(3) have "run = [x]" "rest = drop 1 xs"
      by (auto simp: countAndMakeRun_def)
    with Cons Nil show ?thesis
      by (intro exI [of _ 1]) simp
  next
    case (Cons y more)
    with \<open>xs = x # tl\<close> have xs: "xs = x # y # more"
      by simp
    with assms(2) have x: "x \<in> A" and y: "y \<in> A" and more: "set more \<subseteq> A"
      by simp_all
    show ?thesis
    proof (cases "cmp y x < 0")
      case False
      define n where "n = 2 + runRest cmp False y more"
      from False assms(3) have run: "run = take n xs" and rest: "rest = drop n xs"
        by (auto simp: countAndMakeRun_def xs n_def Let_def)
      have tk: "take n xs = x # y # take (runRest cmp False y more) more"
        by (simp add: n_def xs)
      from False assms(1) [OF y x] have "f x \<le> f y"
        by simp
      with runRest_ascending [OF assms(1) y more]
      have "successively (\<lambda>a b. f a \<le> f b) (take n xs)"
        by (simp add: tk successively_Cons)
      then have "sorted_wrt (\<lambda>a b. f a \<le> f b) (take n xs)"
        by (subst (asm) successively_conv_sorted_wrt) (auto simp: transp_def)
      then have "sorted (map f run)"
        by (simp add: run sorted_map)
      with run rest show ?thesis
        by blast
    next
      case True
      define n where "n = 2 + runRest cmp True y more"
      from True assms(3) have run: "run = rev (take n xs)" and rest: "rest = drop n xs"
        by (auto simp: countAndMakeRun_def xs n_def Let_def)
      have tk: "take n xs = x # y # take (runRest cmp True y more) more"
        by (simp add: n_def xs)
      from True assms(1) [OF y x] have "f y < f x"
        by simp
      with runRest_descending [OF assms(1) y more]
      have "successively (\<lambda>a b. f b < f a) (take n xs)"
        by (simp add: tk successively_Cons)
      then have "successively (\<lambda>a b. f a < f b) run"
        by (simp add: run)
      then have "sorted_wrt (\<lambda>a b. f a < f b) run"
        by (subst (asm) successively_conv_sorted_wrt) (auto simp: transp_def)
      then have strict: "sorted_wrt (<) (map f run)"
        by (simp add: sorted_wrt_map)
      then have srt: "sorted (map f run)" and dist: "distinct (map f run)"
        by (simp_all add: strict_sorted_iff)
      have "filter (\<lambda>x. f x = c) run = filter (\<lambda>x. f x = c) (take n xs)" for c
      proof -
        have "filter (\<lambda>x. f x = c) (take n xs) = rev (filter (\<lambda>x. f x = c) run)"
          by (simp add: run rev_filter)
        also have "\<dots> = filter (\<lambda>x. f x = c) run"
          by (rule rev_short) (rule filter_key_distinct [OF dist])
        finally show ?thesis
          by simp
      qed
      with srt run rest show ?thesis
        by (intro exI [of _ n]) simp
    qed
  qed
qed

lemma jsSort_sort_key:
  assumes "\<And>a b. a \<in> A \<Longrightarrow> b \<in> A \<Longrightarrow> (cmp a b < 0) = (f a < f b)"
    and "set xs \<subseteq> A"
  shows "jsSort cmp xs = sort_key f xs"
proof (cases "length xs < 2")
  case True
  then have "xs = [] \<or> (\<exists>x. xs = [x])"
    by (cases xs) (auto simp: length_Suc_conv)
  then show ?thesis
    by (auto simp: jsSort_def)
next
  case False
  obtain run rest where rr: "countAndMakeRun cmp xs = (run, rest)"
    by (cases "countAndMakeRun cmp xs")
  from countAndMakeRun_stable [OF assms rr]
  obtain n where rest: "rest = drop n xs" and srt: "sorted (map f run)"
    and ms: "mset run = mset (take n xs)"
    and fl: "\<And>c. filter (\<lambda>x. f x = c) run = filter (\<lambda>x. f x = c) (take n xs)"
    by blast
  have "set run = set (take n xs)"
    using ms by (metis set_mset_mset)
  with assms(2) have runA: "set run \<subseteq> A"
    using set_take_subset by fastforce
  have restA: "set rest \<subseteq> A"
    using assms(2) set_drop_subset rest by fastforce
  from binaryInsertionSort_stable [OF assms(1) srt runA restA ms fl]
  have res: "sorted (map f (jsSort cmp xs))" "mset (jsSort cmp xs) = mset xs"
    "\<And>c. filter (\<lambda>x. f x = c) (jsSort cmp xs) = filter (\<lambda>x. f x = c) xs"
    using False rr by (simp_all add: jsSort_def rest)
  show ?thesis
  proof (rule sym, rule properties_for_sort_key [symmetric, THEN sym])
    show "mset (jsSort cmp xs) = mset xs"
      by (rule res(2))
    show "sorted (map f (jsSort cmp xs))"
      by (rule res(1))
    show "filter (\<lambda>x. f k = f x) (jsSort cmp xs) = filter (\<lambda>x. f k = f x) xs" for k
      using res(3) [of "f k"] by (simp add: eq_commute)
  qed
qed

lemma sortStreams_sort_key:
  "list_all plainQuality xs \<Longrightarrow> sortStreams xs = sort_key (\<lambda>s. - rankOf s) xs"
  unfolding sortStreams_def
  by (rule jsSort_sort_key [where A = "{s. plainQuality s}"])
     (auto simp: compareQuality_def plainQuality_def rankOf_def list_all_iff)

lemma sortStreams_descending:
  assumes "list_all plainQuality xs"
  shows "sorted_wrt (\<lambda>a b. rankOf b \<le> rankOf a) (sortStreams xs)"
proof -
  have "sorted (map (\<lambda>s. - rankOf s) (sort_key (\<lambda>s. - rankOf s) xs))"
    by (rule sorted_sort_key)
  then show ?thesis
    by (simp add: sortStreams_sort_key [OF assms] sorted_map)
qed

lemma sortStreams_stable:
  assumes "list_all plainQuality xs"
  shows "filter (\<lambda>s. rankOf s = k) (sortStreams xs) = filter (\<lambda>s. rankOf s = k) xs"
proof -
  have "filter (\<lambda>s. - rankOf s = - k) (sort_key (\<lambda>s. - rankOf s) xs)
          = filter (\<lambda>s. - rankOf s = - k) xs"
    by (rule sort_key_stable)
  then show ?thesis
    by (simp add: sortStreams_sort_key [OF assms])
qed

lemma sortStreams_idempotent:
  assumes "list_all plainQuality xs"
  shows "sortStreams (sortStreams xs) = sortStreams xs"
proof -
  let ?ys = "sort_key (\<lambda>s. - rankOf s) xs"
  have plain: "list_all plainQuality ?ys"
    using assms by (simp add: list_all_iff)
  have "sort_key (\<lambda>s. - rankOf s) ?ys = ?ys"
    by (rule sort_key_id_if_sorted) (rule sorted_sort_key)
  then show ?thesis
    by (simp add: sortStreams_sort_key [OF assms] sortStreams_sort_key [OF plain])
qed

lemma qualityOf_missing_label:
  "\<not> truthy (src_quality src) \<Longrightarrow> qualityOf (streamOf src index) = ''Auto''"
  by (simp add: qualityOf_def streamOf_def js_or_def)

lemma example_streams:
  "mapIndexed streamOf exampleSources
     = [\<lparr>s_url = JStr ''u1'', s_title = ''Auto - Server 1'', notWebReady = False\<rparr>,
        \<lparr>s_url = JStr ''u2'', s_title = ''1080p - Server 2'', notWebReady = False\<rparr>,
        \<lparr>s_url = JStr ''u3'', s_title = ''720p - Server 3'', notWebReady = False\<rparr>]"
  by code_simp

lemma example_sorted:
  "map s_title (sortStreams (mapIndexed streamOf exampleSources))
     = [''1080p - Server 2'', ''720p - Server 3'', ''Auto - Server 1'']"
  by code_simp

lemma example_plain: "list_all plainQuality (mapIndexed streamOf exampleSources)"
  by (simp add: example_streams plainQuality_def qualityOf_def inheritedName_def)

lemma example_handlers:
  "streamsOf_server (map Some exampleSources)
     = Inr (sortStreams (mapIndexed streamOf exampleSources))
   \<and> streamsOf_prod (map Some exampleSources)
     = sortStreams (mapIndexed streamOf exampleSources)
   \<and> stream_server (Reply 200 (Some \<lparr>sources = Some (map Some exampleSources)\<rparr>))
     = json (Streams (sortStreams (mapIndexed streamOf exampleSources)))"
  by code_simp

text \<open>
  As long as no quality label is a name inherited from \<open>Object.prototype\<close>, so that the
  comparator yields a number for every pair, the sort of the stream route orders the
  streams by descending rank of their quality label, the rank being 4 for 1080p, 3 for
  720p, 2 for 480p and 1 for Auto (and 0 for any other label); a source without a
  quality label gets the label Auto. The sort is then a permutation that keeps streams
  of equal rank in their upstream order, and sorting a sorted list changes nothing.
  Sources with qualities Auto, 1080p, 720p come out of both stream handlers in the
  order 1080p, 720p, Auto.
\<close>

theorem sortStreams_descending_stable_idempotent:
  assumes "list_all plainQuality xs"
  shows "sorted_wrt (\<lambda>a b. rankOf b \<le> rankOf a) (sortStreams xs)
       \<and> mset (sortStreams xs) = mset xs
       \<and> filter (\<lambda>s. rankOf s = k) (sortStreams xs) = filter (\<lambda>s. rankOf s = k) xs
       \<and> sortStreams (sortStreams xs) = sortStreams xs
       \<and> map qualityRank [''1080p'', ''720p'', ''480p'', ''Auto'', ''4K''] = [4, 3, 2, 1, 0]
       \<and> (\<not> truthy (src_quality src) \<longrightarrow> qualityOf (streamOf src index) = ''Auto'')
       \<and> streamsOf_server (map Some exampleSources)
            = Inr (sortStreams (mapIndexed streamOf exampleSources))
       \<and> streamsOf_prod (map Some exampleSources)
            = sortStreams (mapIndexed streamOf exampleSources)
       \<and> stream_server (Reply 200 (Some \<lparr>sources = Some (map Some exampleSources)\<rparr>))
            = json (Streams (sortStreams (mapIndexed streamOf exampleSources)))
       \<and> map s_title (sortStreams (mapIndexed streamOf exampleSources))
            = [''1080p - Server 2'', ''720p - Server 3'', ''Auto - Server 1'']"
proof -
  have "mset (sortStreams xs) = mset xs"
    by (simp add: sortStreams_sort_key [OF assms])
  moreover have "map qualityRank [''1080p'', ''720p'', ''480p'', ''Auto'', ''4K''] = [4, 3, 2, 1, 0]"
    by (simp add: qualityRank_def qualityOrder_def)
  ultimately show ?thesis
    using sortStreams_descending [OF assms] sortStreams_stable [OF assms]
      sortStreams_idempotent [OF assms] qualityOf_missing_label example_sorted example_handlers
    by simp
qed

theorem sortStreams_example_witness:
  "list_all plainQuality (mapIndexed streamOf exampleSources)
   \<and> map s_title (sortStreams (mapIndexed streamOf exampleSources))
        = [''1080p - Server 2'', ''720p - Server 3'', ''Auto - Server 1'']
   \<and> sortStreams (sortStreams (mapIndexed streamOf exampleSources))
        = sortStreams (mapIndexed streamOf exampleSources)
   \<and> sorted_wrt (\<lambda>a b. rankOf b \<le> rankOf a) (sortStreams (mapIndexed streamOf exampleSources))
   \<and> qualityOf (streamOf \<lparr>src_url = JStr ''u'', src_quality = JUndefined, src_type = JStr ''mp4''\<rparr> 0)
        = ''Auto''"
  using sortStreams_descending_stable_idempotent
          [OF example_plain, of 0 "\<lparr>src_url = JStr ''u'', src_quality = JUndefined, src_type = JStr ''mp4''\<rparr>" 0]
        example_plain
  by simp

text \<open>
  C5. The stream route is to order the streams by descending quality rank (1080p
  before 720p before 480p before Auto), stably and idempotently. The code does not
  for the sources Auto, constructor, 1080p: \<open>qualityOrder['constructor']\<close> is the
  inherited function \<open>Object.prototype.constructor\<close>, every comparison with that
  stream is \<open>NaN\<close> and counts as 0, the sort finds the three streams to be one
  ascending run and leaves them as they came. Both stream handlers answer with Auto
  (rank 1) in front of 1080p (rank 4).
\<close>

theorem streams_with_inherited_name_unsorted:
  "streamsOf_server (map Some inheritedNameSources)
     = Inr [\<lparr>s_url = JStr ''u1'', s_title = ''Auto - Server 1'', notWebReady = False\<rparr>,
            \<lparr>s_url = JStr ''u2'', s_title = ''constructor - Server 2'', notWebReady = False\<rparr>,
            \<lparr>s_url = JStr ''u3'', s_title = ''1080p - Server 3'', notWebReady = False\<rparr>]
   \<and> streamsOf_prod (map Some inheritedNameSources)
     = [\<lparr>s_url = JStr ''u1'', s_title = ''Auto - Server 1'', notWebReady = False\<rparr>,
        \<lparr>s_url = JStr ''u2'', s_title = ''constructor - Server 2'', notWebReady = False\<rparr>,
        \<lparr>s_url = JStr ''u3'', s_title = ''1080p - Server 3'', notWebReady = False\<rparr>]
   \<and> map (\<lambda>s. inheritedName (qualityOf s)) (mapIndexed streamOf inheritedNameSources)
     = [False, True, False]
   \<and> qualityRank ''Auto'' = 1 \<and> qualityRank ''1080p'' = 4
   \<and> \<not> sorted_wrt (\<lambda>a b. rankOf b \<le> rankOf a)
         (sortStreams (mapIndexed streamOf inheritedNameSources))"
  by code_simp

text \<open>
  With the sources Auto, 720p, constructor, 1080p the first run is the descending pair
  Auto, 720p, which is reversed; constructor compares equal to Auto and stays behind
  it; 1080p is put in front.
\<close>

lemma sortStreams_inherited_name_behind:
  "map s_title
     (sortStreams (mapIndexed streamOf
        [\<lparr>src_url = JStr ''u1'', src_quality = JStr ''Auto'', src_type = JStr ''mp4''\<rparr>,
         \<lparr>src_url = JStr ''u2'', src_quality = JStr ''720p'', src_type = JStr ''mp4''\<rparr>,
         \<lparr>src_url = JStr ''u3'', src_quality = JStr ''constructor'', src_type = JStr ''mp4''\<rparr>,
         \<lparr>src_url = JStr ''u4'', src_quality = JStr ''1080p'', src_type = JStr ''mp4''\<rparr>]))
     = [''1080p - Server 4'', ''720p - Server 2'', ''Auto - Server 1'', ''constructor - Server 3'']"
  by code_simp

section \<open>Properties: episodes of a series\<close>

















text \<open>In server.js no episode is ever passed over: the entry is made, or the loop throws.\<close>

lemma videoEntry_server_never_skips: "videoEntry_server ident s e \<noteq> Inr None"
  by (simp add: videoEntry_server_def split: sum.split)

section \<open>Properties: what the routes answer when the lookup fails\<close>

lemma withBuildIdRetry_returns:
  "\<exists>v c' tr. withBuildIdRetry fn io1 io2 c = Inr (v, c', tr)"
proof -
  obtain r1 c1 tr1 where warm: "getBuildId_retry False (fst io1) (snd io1) c = Inr (r1, c1, tr1)"
    using getBuildIdWith_returns [of groupNonQuote False "fst io1" "snd io1" c]
    by (auto simp: getBuildId_retry_def)
  obtain r2 c2 tr2 where refresh: "getBuildId_retry True (fst io2) (snd io2) c1 = Inr (r2, c2, tr2)"
    using getBuildIdWith_returns [of groupNonQuote True "fst io2" "snd io2" c1]
    by (auto simp: getBuildId_retry_def)
  from warm refresh show ?thesis
    by (simp add: withBuildIdRetry_def split: sum.split)
qed

lemma withBuildIdRetry_all_attempts_fail:
  assumes "\<And>c' attempt. \<exists>e. fn c' attempt = Inl e"
  shows "\<exists>c' tr. withBuildIdRetry fn io1 io2 c = Inr (None, c', tr)"
proof -
  obtain r1 c1 tr1 where warm: "getBuildId_retry False (fst io1) (snd io1) c = Inr (r1, c1, tr1)"
    using getBuildIdWith_returns [of groupNonQuote False "fst io1" "snd io1" c]
    by (auto simp: getBuildId_retry_def)
  obtain r2 c2 tr2 where refresh: "getBuildId_retry True (fst io2) (snd io2) c1 = Inr (r2, c2, tr2)"
    using getBuildIdWith_returns [of groupNonQuote True "fst io2" "snd io2" c1]
    by (auto simp: getBuildId_retry_def)
  from assms obtain e1 e2 where "fn c1 0 = Inl e1" and "fn c2 1 = Inl e2"
    by blast
  with warm refresh show ?thesis
    by (simp add: withBuildIdRetry_def)
qed

lemma axios_get_fails: "\<not> succeeds r \<Longrightarrow> \<exists>e. axios_get defaultValidateStatus r = Inl e"
  by (cases r) (simp_all add: succeeds_def axios_get_def)

lemma getContentDetails_retry_fails:
  assumes "\<And>c' attempt. \<not> succeeds (net c' attempt)"
  shows "\<exists>c' tr. getContentDetails_retry net io1 io2 c = Inr (None, c', tr)"
  unfolding getContentDetails_retry_def
proof (rule withBuildIdRetry_all_attempts_fail)
  fix c' attempt
  from axios_get_fails [OF assms [of c' attempt]]
  show "\<exists>e. (case axios_get defaultValidateStatus (net c' attempt) of
               Inl e \<Rightarrow> Inl e | Inr response \<Rightarrow> Inr (data response)) = Inl e"
    by auto
qed

lemma listLookup_retry_fails:
  assumes "\<And>c' attempt. \<not> succeeds (net c' attempt)"
  shows "\<exists>c' tr. listLookup_retry net io1 io2 c = Inr (None, c', tr)"
  unfolding listLookup_retry_def
proof (rule withBuildIdRetry_all_attempts_fail)
  fix c' attempt
  from axios_get_fails [OF assms [of c' attempt]]
  show "\<exists>e. (case axios_get defaultValidateStatus (net c' attempt) of
               Inl e \<Rightarrow> Inl e
             | Inr response \<Rightarrow> Inr (Some (case data response of Some xs \<Rightarrow> xs | None \<Rightarrow> []))) = Inl e"
    by auto
qed

lemma meta_retry_status: "res_status (meta_retry ty ident net io1 io2 c) = 200"
  by (simp add: meta_retry_def metaTry_retry_def json_def
        split: sum.split option.split prod.split)

lemma meta_retry_absent:
  "getContentDetails_retry net io1 io2 c = Inr (None, c', tr)
     \<Longrightarrow> meta_retry ty ident net io1 io2 c = json EmptyMeta"
  by (simp add: meta_retry_def metaTry_retry_def)

lemma catalog_retry_status: "res_status (catalog_retry conv ty ident q net io1 io2 c) = 200"
  by (simp add: catalog_retry_def catalogTry_retry_def json_def
        split: sum.split option.split prod.split)

lemma catalog_retry_absent:
  "listLookup_retry net io1 io2 c = Inr (None, c', tr)
     \<Longrightarrow> catalog_retry conv ty ident q net io1 io2 c = json (Metas [])"
  by (simp add: catalog_retry_def catalogTry_retry_def filterKind_retry_def)

lemma stream_retry_status: "res_status (stream_retry net) = 200"
  by (simp add: stream_retry_def streamTry_server_def json_def
        split: sum.split option.split)

lemma stream_retry_absent:
  "getStreamSources_server net = None \<Longrightarrow> stream_retry net = json (Streams [])"
  by (simp add: stream_retry_def streamTry_server_def)

lemma getStreamSources_server_fails:
  "\<not> succeeds net \<Longrightarrow> getStreamSources_server net = None"
  using axios_get_fails [of net] by (auto simp: getStreamSources_server_def)

lemma getContentDetails_server_fails:
  "\<not> succeeds net \<Longrightarrow> getContentDetails_server net = None"
  using axios_get_fails [of net] by (auto simp: getContentDetails_server_def)

text \<open>
  C4, as amended. In the second file of part_002 the catalog, meta and stream handlers
  always answer with status 200; when the upstream lookup gives nothing (\<open>null\<close>), and
  so in particular when every request of the lookup fails, the body is the empty
  collection: \<open>{ metas: [] }\<close>, \<open>{ meta: {} }\<close>, \<open>{ streams: [] }\<close>. In server.js the
  meta handler answers 404 with an error body when the detail lookup gives nothing.
\<close>

theorem routes_retry_degrade_to_empty:
  "res_status (catalog_retry conv ty ident q lnet io1 io2 c) = 200
   \<and> res_status (meta_retry ty ident dnet io1 io2 c) = 200
   \<and> res_status (stream_retry snet) = 200
   \<and> (\<forall>c' tr. listLookup_retry lnet io1 io2 c = Inr (None, c', tr) \<longrightarrow>
         catalog_retry conv ty ident q lnet io1 io2 c = json (Metas []))
   \<and> (\<forall>c' tr. getContentDetails_retry dnet io1 io2 c = Inr (None, c', tr) \<longrightarrow>
         meta_retry ty ident dnet io1 io2 c = json EmptyMeta)
   \<and> (getStreamSources_server snet = None \<longrightarrow> stream_retry snet = json (Streams []))
   \<and> ((\<forall>c' attempt. \<not> succeeds (lnet c' attempt)) \<longrightarrow>
         catalog_retry conv ty ident q lnet io1 io2 c = json (Metas []))
   \<and> ((\<forall>c' attempt. \<not> succeeds (dnet c' attempt)) \<longrightarrow>
         meta_retry ty ident dnet io1 io2 c = json EmptyMeta)
   \<and> (\<not> succeeds snet \<longrightarrow> stream_retry snet = json (Streams []))
   \<and> (getContentDetails_server net = None \<longrightarrow>
         meta_server ty ident net = status_json 404 (ErrorMessage ''Content not found''))"
proof -
  have l: "catalog_retry conv ty ident q lnet io1 io2 c = json (Metas [])"
    if "\<forall>c' attempt. \<not> succeeds (lnet c' attempt)"
    using listLookup_retry_fails [of lnet io1 io2 c] that catalog_retry_absent by blast
  have d: "meta_retry ty ident dnet io1 io2 c = json EmptyMeta"
    if "\<forall>c' attempt. \<not> succeeds (dnet c' attempt)"
    using getContentDetails_retry_fails [of dnet io1 io2 c] that meta_retry_absent by blast
  have s: "stream_retry snet = json (Streams [])" if "\<not> succeeds snet"
    using that by (simp add: getStreamSources_server_fails stream_retry_absent)
  have v: "meta_server ty ident net = status_json 404 (ErrorMessage ''Content not found'')"
    if "getContentDetails_server net = None"
    using that by (simp add: meta_server_def metaTry_server_def)
  from l d s v show ?thesis
    by (simp add: meta_retry_status catalog_retry_status stream_retry_status
          meta_retry_absent catalog_retry_absent stream_retry_absent)
qed

theorem routes_retry_degrade_to_empty_witness:
  "meta_retry ''series'' ''cineby:42'' (\<lambda>c' attempt. Reply 404 None) (1000, NoReply) (2000, NoReply) newClient
     = \<lparr>res_status = 200, res_body = EmptyMeta\<rparr>
   \<and> catalog_retry (\<lambda>text. 0) ''movie'' ''cineby-trending-movies''
        \<lparr>q_search = None, q_skip = None, q_genre = None\<rparr>
        (\<lambda>c' attempt. NoReply) (1000, NoReply) (2000, NoReply) newClient
     = \<lparr>res_status = 200, res_body = Metas []\<rparr>
   \<and> stream_retry (Reply 503 None) = \<lparr>res_status = 200, res_body = Streams []\<rparr>
   \<and> meta_server ''series'' ''cineby:42'' (Reply 200 None)
     = \<lparr>res_status = 404, res_body = ErrorMessage ''Content not found''\<rparr>"
proof -
  have f: "\<not> succeeds (Reply 404 (None :: details option))"
    "\<not> succeeds (NoReply :: item option list option reply)"
    "\<not> succeeds (Reply 503 (None :: stream_data option))"
    by (simp_all add: succeeds_def defaultValidateStatus_def)
  have g: "getContentDetails_server (Reply 200 None) = None"
    by (simp add: getContentDetails_server_def axios_get_def defaultValidateStatus_def)
  from routes_retry_degrade_to_empty
         [of "\<lambda>text. 0" "''movie''" "''cineby-trending-movies''"
             "\<lparr>q_search = None, q_skip = None, q_genre = None\<rparr>"
             "\<lambda>c' attempt. NoReply" "(1000, NoReply)" "(2000, NoReply)" newClient
             "\<lambda>c' attempt. Reply 404 None" "Reply 503 None" "Reply 200 None"]
       routes_retry_degrade_to_empty
         [of "\<lambda>text. 0" "''series''" "''cineby:42''"
             "\<lparr>q_search = None, q_skip = None, q_genre = None\<rparr>"
             "\<lambda>c' attempt. NoReply" "(1000, NoReply)" "(2000, NoReply)" newClient
             "\<lambda>c' attempt. Reply 404 None" "Reply 503 None" "Reply 200 None"]
       f g
  show ?thesis
    by (simp add: json_def status_json_def)
qed

text \<open>
  C4 as stated fails in server.js: for \<open>/meta/series/cineby:42\<close>, when the upstream
  answers 404, or answers 200 without \<open>pageProps\<close>, the detail lookup gives \<open>null\<close> and
  the handler answers 404 with an error body, not 200 with \<open>{ meta: {} }\<close>.
\<close>

theorem meta_server_absent_is_404:
  "getContentDetails_server (Reply 404 None) = None
   \<and> meta_server ''series'' ''cineby:42'' (Reply 404 None)
       = \<lparr>res_status = 404, res_body = ErrorMessage ''Content not found''\<rparr>
   \<and> getContentDetails_server (Reply 200 None) = None
   \<and> meta_server ''series'' ''cineby:42'' (Reply 200 None)
       = \<lparr>res_status = 404, res_body = ErrorMessage ''Content not found''\<rparr>
   \<and> meta_server ''series'' ''cineby:42'' (Reply 200 None) \<noteq> \<lparr>res_status = 200, res_body = EmptyMeta\<rparr>"
  by (simp add: meta_server_def metaTry_server_def getContentDetails_server_def axios_get_def
        defaultValidateStatus_def status_json_def)

end
